theory Spec2Isabelle
  imports Complex_Main
begin

section \<open>Numbers and vectors\<close>

text \<open>
  The controls of \<^verbatim>\<open>MouseControl.js\<close> compute with JavaScript numbers. They
  are modelled by the reals (exact arithmetic). A JavaScript operation whose result is
  not a real number (a division by zero, the square root of a negative number) is
  written out as \<open>None\<close>, so no theorem rests on HOL's \<open>x / 0 = 0\<close>.
\<close>

definition js_div :: "real \<Rightarrow> real \<Rightarrow> real option" where
  "js_div a b = (if b = 0 then None else Some (a / b))"

definition js_sqrt :: "real \<Rightarrow> real option" where
  "js_sqrt a = (if a < 0 then None else Some (sqrt a))"

text \<open>\<^verbatim>\<open>ToInt32\<close>, applied by the shift operators: truncate, then wrap to 32 bits.\<close>

definition wrap32 :: "int \<Rightarrow> int" where
  "wrap32 n = (n + 2 ^ 31) mod 2 ^ 32 - 2 ^ 31"

definition toInt32 :: "real \<Rightarrow> int" where
  "toInt32 r = wrap32 (if r < 0 then - \<lfloor>- r\<rfloor> else \<lfloor>r\<rfloor>)"

text \<open>\<^verbatim>\<open>a >> 1\<close> and \<^verbatim>\<open>a << 1\<close> on numbers.\<close>

definition shr1 :: "real \<Rightarrow> real" where
  "shr1 a = real_of_int (toInt32 a div 2)"

definition shl1 :: "real \<Rightarrow> real" where
  "shl1 a = real_of_int (wrap32 (toInt32 a * 2))"

text \<open>
  \<^verbatim>\<open>THREE.Vector2\<close>, \<^verbatim>\<open>THREE.Vector3\<close> and \<^verbatim>\<open>THREE.Quaternion\<close>
  belong to the three.js library the controls are written against. The operations the
  controls call are written out here with the library's meaning; \<open>normalize3\<close>
  (\<^verbatim>\<open>normalize\<close>) divides by \<^verbatim>\<open>length() || 1\<close>, so the zero vector stays the
  zero vector. Where a name of the library is taken in HOL it carries the dimension:
  \<open>length3\<close> is \<^verbatim>\<open>length\<close>, \<open>sub3\<close> is \<^verbatim>\<open>sub\<close>, \<open>add2\<close> is \<^verbatim>\<open>add\<close> of
  \<^verbatim>\<open>Vector2\<close>.
\<close>

record vector2 =
  px :: real
  py :: real

record vector3 =
  vx :: real
  vy :: real
  vz :: real

record quaternion =
  qx :: real
  qy :: real
  qz :: real
  qw :: real

definition zero2 :: vector2 where
  "zero2 = \<lparr>px = 0, py = 0\<rparr>"

definition sub2 :: "vector2 \<Rightarrow> vector2 \<Rightarrow> vector2" where
  "sub2 a b = \<lparr>px = px a - px b, py = py a - py b\<rparr>"

definition add2 :: "vector2 \<Rightarrow> vector2 \<Rightarrow> vector2" where
  "add2 a b = \<lparr>px = px a + px b, py = py a + py b\<rparr>"

definition multiplyScalar2 :: "vector2 \<Rightarrow> real \<Rightarrow> vector2" where
  "multiplyScalar2 a k = \<lparr>px = px a * k, py = py a * k\<rparr>"

definition lengthSq2 :: "vector2 \<Rightarrow> real" where
  "lengthSq2 a = px a * px a + py a * py a"

definition zero3 :: vector3 where
  "zero3 = \<lparr>vx = 0, vy = 0, vz = 0\<rparr>"

definition sub3 :: "vector3 \<Rightarrow> vector3 \<Rightarrow> vector3" where
  "sub3 a b = \<lparr>vx = vx a - vx b, vy = vy a - vy b, vz = vz a - vz b\<rparr>"

definition add3 :: "vector3 \<Rightarrow> vector3 \<Rightarrow> vector3" where
  "add3 a b = \<lparr>vx = vx a + vx b, vy = vy a + vy b, vz = vz a + vz b\<rparr>"

definition multiplyScalar :: "vector3 \<Rightarrow> real \<Rightarrow> vector3" where
  "multiplyScalar a k = \<lparr>vx = vx a * k, vy = vy a * k, vz = vz a * k\<rparr>"

definition divideScalar :: "vector3 \<Rightarrow> real \<Rightarrow> vector3" where
  "divideScalar a k = \<lparr>vx = vx a / k, vy = vy a / k, vz = vz a / k\<rparr>"

definition lengthSq :: "vector3 \<Rightarrow> real" where
  "lengthSq a = vx a * vx a + vy a * vy a + vz a * vz a"

definition length3 :: "vector3 \<Rightarrow> real" where
  "length3 a = sqrt (lengthSq a)"

definition normalize3 :: "vector3 \<Rightarrow> vector3" where
  "normalize3 a = divideScalar a (if length3 a = 0 then 1 else length3 a)"

definition setLength :: "vector3 \<Rightarrow> real \<Rightarrow> vector3" where
  "setLength a l = multiplyScalar (normalize3 a) l"

definition cross :: "vector3 \<Rightarrow> vector3 \<Rightarrow> vector3" where
  "cross a b =
     \<lparr>vx = vy a * vz b - vz a * vy b,
      vy = vz a * vx b - vx a * vz b,
      vz = vx a * vy b - vy a * vx b\<rparr>"

definition dot :: "vector3 \<Rightarrow> vector3 \<Rightarrow> real" where
  "dot a b = vx a * vx b + vy a * vy b + vz a * vz b"

definition distanceToSquared :: "vector3 \<Rightarrow> vector3 \<Rightarrow> real" where
  "distanceToSquared a b = lengthSq (sub3 a b)"

definition setFromAxisAngle :: "vector3 \<Rightarrow> real \<Rightarrow> quaternion" where
  "setFromAxisAngle axis angle =
     \<lparr>qx = vx axis * sin (angle / 2),
      qy = vy axis * sin (angle / 2),
      qz = vz axis * sin (angle / 2),
      qw = cos (angle / 2)\<rparr>"

definition applyQuaternion :: "vector3 \<Rightarrow> quaternion \<Rightarrow> vector3" where
  "applyQuaternion v q =
     (let ix = qw q * vx v + qy q * vz v - qz q * vy v;
          iy = qw q * vy v + qz q * vx v - qx q * vz v;
          iz = qw q * vz v + qx q * vy v - qy q * vx v;
          iw = - qx q * vx v - qy q * vy v - qz q * vz v
      in \<lparr>vx = ix * qw q + iw * - qx q + iy * - qz q - iz * - qy q,
          vy = iy * qw q + iw * - qy q + iz * - qx q - ix * - qz q,
          vz = iz * qw q + iw * - qz q + ix * - qy q - iy * - qx q\<rparr>)"

section \<open>Data model\<close>

text \<open>
  A scene-graph node (\<^verbatim>\<open>THREE.Object3D\<close>) is owned by the host and reached by
  reference; the controls read and write its \<open>position\<close> and \<open>up\<close> and call
  \<^verbatim>\<open>lookAt\<close>. The orientation \<^verbatim>\<open>lookAt\<close> computes is kept as the
  triple (position, target, up) it is computed from.
\<close>

type_synonym objref = nat

record object3d =
  position :: vector3
  up :: vector3
  facing :: "(vector3 \<times> vector3 \<times> vector3) option"

definition lookAt :: "object3d \<Rightarrow> vector3 \<Rightarrow> object3d" where
  "lookAt ob t = ob\<lparr>facing := Some (position ob, t, up ob)\<rparr>"

text \<open>
  The look-at target of an object crosses the interface of the control by reference
  (\<^verbatim>\<open>getTarget\<close>, \<^verbatim>\<open>setTarget\<close>), so target vectors live in a store of
  vectors and \<open>target\<close> is an address. \<open>last_pos\<close>, \<open>last_angle\<close> and \<open>last_axis\<close>
  are \<^verbatim>\<open>info.last.pos\<close>, \<^verbatim>\<open>info.last.angle\<close> and \<^verbatim>\<open>info.last.axis\<close>;
  \<open>pos\<close> and \<open>info_up\<close> are the snapshot \<^verbatim>\<open>info.pos\<close> and \<^verbatim>\<open>info.up\<close>.
\<close>

type_synonym vref = nat

record objinfo =
  last_pos :: vector3
  last_angle :: real
  last_axis :: vector3
  obj :: objref
  pos :: vector3
  info_up :: vector3
  target :: vref

text \<open>\<^verbatim>\<open>this._mouse\<close>; \<open>curr2\<close> is its field \<^verbatim>\<open>curr\<close>.\<close>

record mouse_state =
  capture :: bool
  curr2 :: vector2
  prev :: vector2

record rectangle =
  rleft :: real
  rtop :: real
  rwidth :: real
  rheight :: real

datatype ButtonEnum = ButtonLeft | ButtonMiddle | ButtonRight

fun button_code :: "ButtonEnum \<Rightarrow> nat" where
  "button_code ButtonLeft = 0"
| "button_code ButtonMiddle = 1"
| "button_code ButtonRight = 2"

datatype EventEnum = moveChange | moveStart | moveStop

text \<open>
  What \<^verbatim>\<open>dispatchEvent\<close> receives: a move event with the pointer's current and
  previous coordinates, or a change event with \<^verbatim>\<open>lookAt\<close>, \<^verbatim>\<open>object\<close> and
  \<^verbatim>\<open>position\<close>.
\<close>

datatype event =
  MoveEvent EventEnum vector2 vector2
| ChangeEvent vector3 objref vector3

datatype control_class =
  MouseControl | TouchControl | RotationControl | PanControl | ZoomControl

text \<open>\<^verbatim>\<open>maxDistance\<close> is a number or \<^verbatim>\<open>Infinity\<close> (its default).\<close>

datatype distance = Finite real | Infinity

datatype error = NotImplemented

text \<open>
  The state: the fields of the control (those of every subclass), then the world it
  acts on: the host's objects, the store of target vectors with its next free address,
  and the events dispatched so far, oldest first.
\<close>

record state =
  cls :: control_class
  speed :: real
  dynamicDampingFactor :: real
  objInfo :: "objinfo list"
  mouse :: mouse_state
  button :: ButtonEnum
  rect :: rectangle
  minDistance :: real
  maxDistance :: distance
  touchStart :: real
  touchEnd :: real
  scene :: "objref \<Rightarrow> object3d"
  vectors :: "vref \<Rightarrow> vector3"
  fresh :: vref
  dispatched :: "event list"

record mouse_event =
  ev_button :: nat
  pageX :: real
  pageY :: real

record touch =
  touch_pageX :: real
  touch_pageY :: real

record touch_event =
  touches :: "touch list"

definition EPS :: real where
  "EPS = 1 / 1000000"

section \<open>\<^verbatim>\<open>THREE.MouseControl\<close>: the gesture pipeline\<close>

text \<open>
  A method that receives an \<^verbatim>\<open>ObjectInfo\<close> and mutates it takes the record and
  returns it updated, next to the state. \<^verbatim>\<open>forEach\<close> over \<^verbatim>\<open>_objInfo\<close>
  threads the state through the entries in order. The source marks private and
  protected members with an underscore (\<^verbatim>\<open>rotate_\<close>, \<^verbatim>\<open>_setEye\<close>); the
  names here leave it out.
\<close>

definition getEye :: "objinfo \<Rightarrow> state \<Rightarrow> vector3" where
  "getEye info s = sub3 (position (scene s (obj info))) (vectors s (target info))"

text \<open>The loop of \<^verbatim>\<open>getObjectInfo_\<close>: the index of the first entry for the object.\<close>

fun findInfo :: "objinfo list \<Rightarrow> objref \<Rightarrow> nat option" where
  "findInfo [] ob = None"
| "findInfo (info # infos) ob =
     (if obj info = ob then Some 0 else map_option Suc (findInfo infos ob))"

definition getObjectInfo :: "state \<Rightarrow> objref \<Rightarrow> nat option" where
  "getObjectInfo s ob = findInfo (objInfo s) ob"

definition dispatchEvent :: "event \<Rightarrow> state \<Rightarrow> state" where
  "dispatchEvent e s = s\<lparr>dispatched := dispatched s @ [e]\<rparr>"

definition checkChange :: "objinfo \<Rightarrow> state \<Rightarrow> objinfo \<times> state" where
  "checkChange info s =
     (if distanceToSquared (last_pos info) (position (scene s (obj info))) \<le> EPS
      then (info, s)
      else (info\<lparr>last_pos := position (scene s (obj info))\<rparr>,
            dispatchEvent
              (ChangeEvent (vectors s (target info)) (obj info) (last_pos info)) s))"

definition dispatchMove :: "EventEnum \<Rightarrow> state \<Rightarrow> state" where
  "dispatchMove e s = dispatchEvent (MoveEvent e (curr2 (mouse s)) (prev (mouse s))) s"

definition getRect :: "state \<Rightarrow> rectangle" where
  "getRect s = rect s"

definition MouseControl_offsetCalc :: "real \<Rightarrow> real \<Rightarrow> state \<Rightarrow> vector2 option" where
  "MouseControl_offsetCalc x y s =
     (let r = getRect s in
      case js_div (x - rleft r) (rwidth r) of
        None \<Rightarrow> None
      | Some ox \<Rightarrow>
          (case js_div (y - rtop r) (rheight r) of
             None \<Rightarrow> None
           | Some oy \<Rightarrow> Some \<lparr>px = ox, py = oy\<rparr>))"

definition RotationControl_offsetCalc :: "real \<Rightarrow> real \<Rightarrow> state \<Rightarrow> vector2 option" where
  "RotationControl_offsetCalc x y s =
     (let r = getRect s; w = shr1 (rwidth r) in
      case js_div (x - w - rleft r) w of
        None \<Rightarrow> None
      | Some ox \<Rightarrow>
          (case js_div (rheight r + shl1 (rtop r - y)) (rwidth r) of
             None \<Rightarrow> None
           | Some oy \<Rightarrow> Some \<lparr>px = ox, py = oy\<rparr>))"

text \<open>\<^verbatim>\<open>this._offsetCalc\<close>: the override of the rotation control, else the base method.\<close>

definition offsetCalc :: "real \<Rightarrow> real \<Rightarrow> state \<Rightarrow> vector2 option" where
  "offsetCalc x y s =
     (if cls s = RotationControl then RotationControl_offsetCalc x y s
      else MouseControl_offsetCalc x y s)"

text \<open>
  The optional arguments of \<^verbatim>\<open>_saveMove\<close> are \<open>None\<close> when left out. The method
  tests \<^verbatim>\<open>opt_x || opt_y\<close>, which is false for a missing argument and for the
  number 0 alike.
\<close>

definition truthy :: "real option \<Rightarrow> bool" where
  "truthy a = (case a of None \<Rightarrow> False | Some r \<Rightarrow> r \<noteq> 0)"

definition or0 :: "real option \<Rightarrow> real" where
  "or0 a = (case a of None \<Rightarrow> 0 | Some r \<Rightarrow> (if r \<noteq> 0 then r else 0))"

definition saveMove :: "real option \<Rightarrow> real option \<Rightarrow> state \<Rightarrow> state option" where
  "saveMove opt_x opt_y s =
     (if truthy opt_x \<or> truthy opt_y
      then (case offsetCalc (or0 opt_x) (or0 opt_y) s of
              None \<Rightarrow> None
            | Some c \<Rightarrow> Some (s\<lparr>mouse := (mouse s)\<lparr>curr2 := c\<rparr>\<rparr>))
      else Some (s\<lparr>mouse := (mouse s)\<lparr>prev := curr2 (mouse s)\<rparr>\<rparr>))"

definition setEye :: "objinfo \<Rightarrow> vector3 \<Rightarrow> state \<Rightarrow> objinfo \<times> state" where
  "setEye info eye s =
     (let t = vectors s (target info);
          ob = (scene s (obj info))\<lparr>position := add3 t eye\<rparr>
      in checkChange info (s\<lparr>scene := (scene s)(obj info := lookAt ob t)\<rparr>))"

definition startMove :: "real \<Rightarrow> real \<Rightarrow> state \<Rightarrow> state option" where
  "startMove x y s =
     (case saveMove (Some x) (Some y) s of
        None \<Rightarrow> None
      | Some s1 \<Rightarrow> saveMove None None s1)"

definition MouseControl_stopMove :: "state \<Rightarrow> state option" where
  "MouseControl_stopMove s = Some (dispatchMove moveStop s)"

definition RotationControl_stopMove :: "state \<Rightarrow> state option" where
  "RotationControl_stopMove s =
     (case saveMove None None s of
        None \<Rightarrow> None
      | Some s1 \<Rightarrow> MouseControl_stopMove s1)"

text \<open>\<^verbatim>\<open>this._stopMove\<close>: only the rotation control overrides it.\<close>

definition stopMove :: "state \<Rightarrow> state option" where
  "stopMove s =
     (if cls s = RotationControl then RotationControl_stopMove s
      else MouseControl_stopMove s)"

definition MouseControl_doMove :: "real \<Rightarrow> real \<Rightarrow> state \<Rightarrow> state option" where
  "MouseControl_doMove x y s = saveMove (Some x) (Some y) s"

definition mouseDown :: "mouse_event \<Rightarrow> state \<Rightarrow> state option" where
  "mouseDown e s =
     (if ev_button e \<noteq> button_code (button s) then Some s
      else (case startMove (pageX e) (pageY e) (s\<lparr>mouse := (mouse s)\<lparr>capture := True\<rparr>\<rparr>) of
              None \<Rightarrow> None
            | Some s1 \<Rightarrow> Some (dispatchMove moveStart s1)))"

definition mouseUp :: "mouse_event \<Rightarrow> state \<Rightarrow> state option" where
  "mouseUp e s =
     (if \<not> capture (mouse s) then Some s
      else stopMove (s\<lparr>mouse := (mouse s)\<lparr>capture := False\<rparr>\<rparr>))"

text \<open>\<^verbatim>\<open>clone()\<close> of a vector of the store: a new address with the same value.\<close>

definition clone :: "vref \<Rightarrow> state \<Rightarrow> vref \<times> state" where
  "clone r s =
     (fresh s, s\<lparr>vectors := (vectors s)(fresh s := vectors s r), fresh := Suc (fresh s)\<rparr>)"

text \<open>
  \<^verbatim>\<open>getTarget\<close> and \<^verbatim>\<open>setTarget\<close> return a reference, or nothing
  (\<^verbatim>\<open>undefined\<close>) for an object the control does not hold.
\<close>

definition getTarget :: "objref \<Rightarrow> state \<Rightarrow> vref option \<times> state" where
  "getTarget ob s =
     (case getObjectInfo s ob of
        None \<Rightarrow> (None, s)
      | Some k \<Rightarrow> (let (r, s1) = clone (target (objInfo s ! k)) s in (Some r, s1)))"

definition setTarget :: "objref \<Rightarrow> vref \<Rightarrow> state \<Rightarrow> vref option \<times> state" where
  "setTarget ob t s =
     (case getObjectInfo s ob of
        None \<Rightarrow> (None, s)
      | Some k \<Rightarrow>
          (let origin = target (objInfo s ! k);
               (r, s1) = clone t s
           in (Some origin,
               s1\<lparr>objInfo := (objInfo s1)[k := (objInfo s1 ! k)\<lparr>target := r\<rparr>]\<rparr>)))"

fun forEach ::
  "(objinfo \<Rightarrow> state \<Rightarrow> objinfo \<times> state) \<Rightarrow> objinfo list \<Rightarrow> state \<Rightarrow> objinfo list \<times> state"
where
  "forEach f [] s = ([], s)"
| "forEach f (info # infos) s =
     (let (info1, s1) = f info s;
          (infos1, s2) = forEach f infos s1
      in (info1 # infos1, s2))"

text \<open>The body of the loop of \<^verbatim>\<open>reset\<close>, for one entry.\<close>

definition reset_info :: "objinfo \<Rightarrow> state \<Rightarrow> objinfo \<times> state" where
  "reset_info info s =
     (let ob = (scene s (obj info))\<lparr>position := pos info, up := info_up info\<rparr>;
          (info1, s1) = checkChange info (s\<lparr>scene := (scene s)(obj info := ob)\<rparr>)
      in (info1\<lparr>last_pos := pos info\<rparr>, s1))"

definition reset :: "state \<Rightarrow> state" where
  "reset s = (let (infos, s1) = forEach reset_info (objInfo s) s in s1\<lparr>objInfo := infos\<rparr>)"

text \<open>\<^verbatim>\<open>resize_\<close> reads the window and the element; \<open>dom_env\<close> is what it reads.\<close>

record dom_env =
  is_body :: bool
  innerWidth :: real
  innerHeight :: real
  bounding :: rectangle
  pageXOffset :: real
  pageYOffset :: real
  clientLeft :: real
  clientTop :: real

definition resize :: "dom_env \<Rightarrow> state \<Rightarrow> state" where
  "resize env s =
     (if is_body env
      then s\<lparr>rect := (rect s)\<lparr>rwidth := innerWidth env, rheight := innerHeight env\<rparr>\<rparr>
      else s\<lparr>rect :=
             \<lparr>rleft = rleft (bounding env) + pageXOffset env - clientLeft env,
              rtop = rtop (bounding env) + pageYOffset env - clientTop env,
              rwidth = rwidth (bounding env),
              rheight = rheight (bounding env)\<rparr>\<rparr>)"

text \<open>
  The constructor's \<^verbatim>\<open>map\<close> over the objects: each entry snapshots the object's
  position and up-vector and gets a target vector of its own, the zero vector.
\<close>

fun registerObjects :: "objref list \<Rightarrow> state \<Rightarrow> objinfo list \<times> state" where
  "registerObjects [] s = ([], s)"
| "registerObjects (ob # obs) s =
     (let info = \<lparr>last_pos = position (scene s ob), last_angle = 0, last_axis = zero3,
                  obj = ob, pos = position (scene s ob), info_up = up (scene s ob),
                  target = fresh s\<rparr>;
          s1 = s\<lparr>vectors := (vectors s)(fresh s := zero3), fresh := Suc (fresh s)\<rparr>;
          (infos, s2) = registerObjects obs s1
      in (info # infos, s2))"

text \<open>
  The constructors (\<open>new_control c\<close> is \<^verbatim>\<open>new\<close> of the class \<open>c\<close>), for a host with
  the given objects and vectors. The fields of the
  subclasses (\<^verbatim>\<open>last.angle\<close> and \<^verbatim>\<open>last.axis\<close> of the rotation control, the
  distances of the zoom control) carry the subclass's initial value in every control.
\<close>

definition new_control ::
  "control_class \<Rightarrow> objref list \<Rightarrow> dom_env \<Rightarrow> (objref \<Rightarrow> object3d) \<Rightarrow> (vref \<Rightarrow> vector3) \<Rightarrow> vref
     \<Rightarrow> state"
where
  "new_control c objects env sc vs fr =
     (let s0 = \<lparr>cls = c, speed = 1, dynamicDampingFactor = 2 / 10, objInfo = [],
                mouse = \<lparr>capture = False, curr2 = zero2, prev = zero2\<rparr>,
                button = ButtonLeft,
                rect = \<lparr>rleft = 0, rtop = 0, rwidth = 0, rheight = 0\<rparr>,
                minDistance = 0, maxDistance = Infinity, touchStart = 0, touchEnd = 0,
                scene = sc, vectors = vs, fresh = fr, dispatched = []\<rparr>;
          (infos, s1) = registerObjects objects s0;
          s2 = resize env (s1\<lparr>objInfo := infos\<rparr>)
      in s2\<lparr>button :=
              (case c of PanControl \<Rightarrow> ButtonRight | ZoomControl \<Rightarrow> ButtonMiddle
               | _ \<Rightarrow> ButtonLeft)\<rparr>)"

section \<open>\<^verbatim>\<open>THREE.TouchControl\<close>: the touch hooks of the base class\<close>

definition notImplemented :: "error + state" where
  "notImplemented = Inl NotImplemented"

definition TouchControl_touchEnd :: "touch_event \<Rightarrow> state \<Rightarrow> error + state" where
  "TouchControl_touchEnd e s = notImplemented"

definition TouchControl_touchMove :: "touch_event \<Rightarrow> state \<Rightarrow> error + state" where
  "TouchControl_touchMove e s = notImplemented"

definition TouchControl_touchStart :: "touch_event \<Rightarrow> state \<Rightarrow> error + state" where
  "TouchControl_touchStart e s = Inr (dispatchMove moveStart s)"

section \<open>\<^verbatim>\<open>THREE.RotationControl\<close>\<close>

text \<open>
  The value of the local \<^verbatim>\<open>angle\<close> of \<^verbatim>\<open>rotate_\<close> after its conditional:
  the length of the drag, or else \<^verbatim>\<open>dynamicDampingFactor && info.last.angle\<close>.
\<close>

definition rotate_angle :: "vector3 \<Rightarrow> objinfo \<Rightarrow> state \<Rightarrow> real" where
  "rotate_angle direction info s =
     (if length3 direction \<noteq> 0 then length3 direction
      else if dynamicDampingFactor s \<noteq> 0 then last_angle info
      else dynamicDampingFactor s)"

text \<open>The conditional of \<^verbatim>\<open>rotate_\<close>: what it stores in \<^verbatim>\<open>info.last\<close>.\<close>

definition rotate_last :: "vector3 \<Rightarrow> objinfo \<Rightarrow> state \<Rightarrow> objinfo option" where
  "rotate_last direction info s =
     (let eye = getEye info s; angle = length3 direction in
      if angle \<noteq> 0
      then (let up1 = normalize3 (up (scene s (obj info)));
                sideways =
                  setLength (normalize3 (cross up1 (normalize3 eye))) (vx direction)
            in Some (info\<lparr>last_axis :=
                             normalize3
                               (cross (add3 (setLength up1 (vy direction)) sideways) eye),
                           last_angle := angle * speed s\<rparr>))
      else if rotate_angle direction info s \<noteq> 0
      then (case js_sqrt (1 - dynamicDampingFactor s) of
              None \<Rightarrow> None
            | Some k \<Rightarrow> Some (info\<lparr>last_angle := last_angle info * k\<rparr>))
      else Some info)"

text \<open>\<^verbatim>\<open>rotate_\<close>.\<close>

definition rotate_obj :: "vector3 \<Rightarrow> objinfo \<Rightarrow> state \<Rightarrow> (objinfo \<times> state) option" where
  "rotate_obj direction info s =
     (case rotate_last direction info s of
        None \<Rightarrow> None
      | Some info1 \<Rightarrow>
          (if rotate_angle direction info s = 0 then Some (info1, s)
           else (let q = setFromAxisAngle (last_axis info1) (last_angle info1);
                     ob = scene s (obj info);
                     s1 = s\<lparr>scene := (scene s)(obj info := ob\<lparr>up := applyQuaternion (up ob) q\<rparr>)\<rparr>
                 in Some (setEye info1 (applyQuaternion (getEye info s) q) s1))))"

text \<open>\<^verbatim>\<open>this._objInfo.forEach(info => this.rotate_(direction, info))\<close>.\<close>

fun rotateEach :: "vector3 \<Rightarrow> objinfo list \<Rightarrow> state \<Rightarrow> (objinfo list \<times> state) option" where
  "rotateEach direction [] s = Some ([], s)"
| "rotateEach direction (info # infos) s =
     (case rotate_obj direction info s of
        None \<Rightarrow> None
      | Some (info1, s1) \<Rightarrow>
          (case rotateEach direction infos s1 of
             None \<Rightarrow> None
           | Some (infos1, s2) \<Rightarrow> Some (info1 # infos1, s2)))"

definition RotationControl_doMove :: "real \<Rightarrow> real \<Rightarrow> state \<Rightarrow> state option" where
  "RotationControl_doMove x y s =
     (case saveMove None None s of
        None \<Rightarrow> None
      | Some s1 \<Rightarrow>
          (case MouseControl_doMove x y s1 of
             None \<Rightarrow> None
           | Some s2 \<Rightarrow>
               (let direction =
                      \<lparr>vx = px (curr2 (mouse s2)) - px (prev (mouse s2)),
                       vy = py (curr2 (mouse s2)) - py (prev (mouse s2)), vz = 0\<rparr>
                in case rotateEach direction (objInfo s2) s2 of
                     None \<Rightarrow> None
                   | Some (infos, s3) \<Rightarrow> Some (s3\<lparr>objInfo := infos\<rparr>))))"

section \<open>\<^verbatim>\<open>THREE.PanControl\<close>\<close>

definition pan :: "vector2 \<Rightarrow> objinfo \<Rightarrow> state \<Rightarrow> objinfo \<times> state" where
  "pan change info s =
     (let eye = getEye info s;
          change1 = multiplyScalar2 change (length3 eye * speed s);
          u = up (scene s (obj info));
          step = add3 (setLength (cross eye u) (px change1)) (setLength u (py change1));
          s1 = s\<lparr>vectors := (vectors s)(target info := add3 (vectors s (target info)) step)\<rparr>
      in setEye info eye s1)"

text \<open>
  The loop of \<^verbatim>\<open>PanControl._doMove\<close> for a drag \<open>change\<close>:
  \<^verbatim>\<open>this._objInfo.forEach(info => this.pan_(change, info))\<close>.
\<close>

definition pan_all :: "vector2 \<Rightarrow> state \<Rightarrow> state" where
  "pan_all change s =
     (let (infos, s1) = forEach (pan change) (objInfo s) s in s1\<lparr>objInfo := infos\<rparr>)"

definition PanControl_doMove :: "real \<Rightarrow> real \<Rightarrow> state \<Rightarrow> state option" where
  "PanControl_doMove x y s =
     (case MouseControl_doMove x y s of
        None \<Rightarrow> None
      | Some s1 \<Rightarrow>
          (let change = sub2 (curr2 (mouse s1)) (prev (mouse s1)) in
           if lengthSq2 change \<noteq> 0
           then (let s2 = pan_all change s1 in
                 if dynamicDampingFactor s2 \<noteq> 0
                 then Some (s2\<lparr>mouse :=
                                (mouse s2)\<lparr>prev :=
                                   add2 (prev (mouse s2))
                                     (multiplyScalar2 change (dynamicDampingFactor s2))\<rparr>\<rparr>)
                 else saveMove None None s2)
           else Some s1))"

section \<open>\<^verbatim>\<open>THREE.ZoomControl\<close>\<close>

text \<open>What \<^verbatim>\<open>zoom_\<close> returns: the factor, or \<^verbatim>\<open>undefined\<close> after a clamp.\<close>

datatype factor = Number real | Undefined

text \<open>
  The factor \<^verbatim>\<open>d\<close> that \<^verbatim>\<open>zoom_\<close> starts from: from the drag while the
  pointer is captured, else the ratio of the pinch distances.
\<close>

definition zoomFactor :: "bool \<Rightarrow> state \<Rightarrow> real option" where
  "zoomFactor cap s =
     (if cap
      then (let d = 1 + (py (curr2 (mouse s)) - py (prev (mouse s))) * speed s
            in Some (if d = 1 \<or> d \<le> 0 then 0 else d))
      else js_div (touchStart s) (touchEnd s))"

text \<open>The two clamps of \<^verbatim>\<open>zoom_\<close>, on the scaled eye and the factor.\<close>

definition clampMax :: "distance \<Rightarrow> vector3 \<times> factor \<Rightarrow> vector3 \<times> factor" where
  "clampMax mx ed =
     (case mx of
        Infinity \<Rightarrow> ed
      | Finite m \<Rightarrow> (if m * m < lengthSq (fst ed) then (setLength (fst ed) m, Undefined) else ed))"

definition clampMin :: "real \<Rightarrow> vector3 \<times> factor \<Rightarrow> vector3 \<times> factor" where
  "clampMin mn ed =
     (if lengthSq (fst ed) < mn * mn then (setLength (fst ed) mn, Undefined) else ed)"

definition zoom :: "bool \<Rightarrow> objinfo \<Rightarrow> state \<Rightarrow> (factor \<times> objinfo \<times> state) option" where
  "zoom cap info s =
     (case zoomFactor cap s of
        None \<Rightarrow> None
      | Some d \<Rightarrow>
          (let s0 = (if cap then s else s\<lparr>touchStart := touchEnd s\<rparr>) in
           if d \<noteq> 0
           then (let ed = clampMin (minDistance s0)
                            (clampMax (maxDistance s0)
                               (multiplyScalar (getEye info s0) d, Number d));
                     (info1, s1) = setEye info (fst ed) s0
                 in Some (snd ed, info1, s1))
           else Some (Number d, info, s0)))"

text \<open>
  The loop of \<^verbatim>\<open>doZoom_\<close>: \<open>f\<close> starts as the damping factor and is set to 0 by
  every call of \<^verbatim>\<open>zoom_\<close> that returns \<^verbatim>\<open>undefined\<close>.
\<close>

fun zoomEach ::
  "bool \<Rightarrow> real \<Rightarrow> objinfo list \<Rightarrow> state \<Rightarrow> (real \<times> objinfo list \<times> state) option"
where
  "zoomEach cap f [] s = Some (f, [], s)"
| "zoomEach cap f (info # infos) s =
     (case zoom cap info s of
        None \<Rightarrow> None
      | Some (d, info1, s1) \<Rightarrow>
          (case zoomEach cap (if d = Undefined then 0 else f) infos s1 of
             None \<Rightarrow> None
           | Some (f1, infos1, s2) \<Rightarrow> Some (f1, info1 # infos1, s2)))"

definition doZoom :: "bool \<Rightarrow> state \<Rightarrow> state option" where
  "doZoom cap s =
     (case zoomEach cap (dynamicDampingFactor s) (objInfo s) s of
        None \<Rightarrow> None
      | Some (f, infos, s1) \<Rightarrow>
          (let s2 = s1\<lparr>objInfo := infos\<rparr>; m = mouse s2 in
           if f \<noteq> 0
           then Some (s2\<lparr>mouse :=
                          m\<lparr>prev := (prev m)\<lparr>py := py (prev m) + f * (py (curr2 m) - py (prev m))\<rparr>\<rparr>\<rparr>)
           else saveMove None None s2))"

definition ZoomControl_touchEnd :: "touch_event \<Rightarrow> state \<Rightarrow> state option" where
  "ZoomControl_touchEnd e s = (if 1 < length (touches e) then stopMove s else Some s)"

definition ZoomControl_doMove :: "real \<Rightarrow> real \<Rightarrow> state \<Rightarrow> state option" where
  "ZoomControl_doMove x y s =
     (case MouseControl_doMove x y s of
        None \<Rightarrow> None
      | Some s1 \<Rightarrow> doZoom (capture (mouse s1)) s1)"

record wheel_event =
  deltaY :: real
  deltaMode :: nat

definition mouseWheel :: "wheel_event \<Rightarrow> state \<Rightarrow> state option" where
  "mouseWheel e s =
     (let unit = (if deltaMode e = 1 then 1 / 100
                  else if deltaMode e = 2 then 25 / 1000
                  else 25 / 100000);
          m = mouse s;
          s1 = s\<lparr>mouse := m\<lparr>prev := (prev m)\<lparr>py := py (prev m) - deltaY e * unit\<rparr>\<rparr>\<rparr>
      in case doZoom True (dispatchMove moveStart s1) of
           None \<Rightarrow> None
         | Some s2 \<Rightarrow> stopMove s2)"

section \<open>The move handler\<close>

text \<open>\<^verbatim>\<open>this._doMove\<close>, by the class of the control, and \<^verbatim>\<open>mouseMove_\<close>.\<close>

definition doMove :: "real \<Rightarrow> real \<Rightarrow> state \<Rightarrow> state option" where
  "doMove x y s =
     (case cls s of
        RotationControl \<Rightarrow> RotationControl_doMove x y s
      | PanControl \<Rightarrow> PanControl_doMove x y s
      | ZoomControl \<Rightarrow> ZoomControl_doMove x y s
      | _ \<Rightarrow> MouseControl_doMove x y s)"

definition mouseMove :: "mouse_event \<Rightarrow> state \<Rightarrow> state option" where
  "mouseMove e s = (if capture (mouse s) then doMove (pageX e) (pageY e) s else Some s)"

section \<open>Notions used in the statements\<close>


text \<open>
  A control of class \<open>c\<close> over one object, object 0, placed at \<open>p\<close> with up-vector
  (0, 1, 0), on a page whose body is 100 by 100: the state the constructor returns.
\<close>

definition demo_env :: dom_env where
  "demo_env =
     \<lparr>is_body = True, innerWidth = 100, innerHeight = 100,
      bounding = \<lparr>rleft = 0, rtop = 0, rwidth = 0, rheight = 0\<rparr>,
      pageXOffset = 0, pageYOffset = 0, clientLeft = 0, clientTop = 0\<rparr>"

definition demo_object :: "vector3 \<Rightarrow> object3d" where
  "demo_object p = \<lparr>position = p, up = \<lparr>vx = 0, vy = 1, vz = 0\<rparr>, facing = None\<rparr>"

definition demo :: "control_class \<Rightarrow> vector3 \<Rightarrow> state" where
  "demo c p = new_control c [0] demo_env (\<lambda>ob. demo_object p) (\<lambda>r. zero3) 0"

definition demo_info :: "vector3 \<Rightarrow> objinfo" where
  "demo_info p =
     \<lparr>last_pos = p, last_angle = 0, last_axis = zero3, obj = 0, pos = p,
      info_up = \<lparr>vx = 0, vy = 1, vz = 0\<rparr>, target = 0\<rparr>"



text \<open>
  The value of the target the control holds for an object, and a write by the host to
  a vector it holds a reference to.
\<close>

definition storedTarget :: "objref \<Rightarrow> state \<Rightarrow> vector3 option" where
  "storedTarget ob s =
     map_option (\<lambda>k. vectors s (target (objInfo s ! k))) (getObjectInfo s ob)"

definition mutate :: "vref \<Rightarrow> vector3 \<Rightarrow> state \<Rightarrow> state" where
  "mutate r v s = s\<lparr>vectors := (vectors s)(r := v)\<rparr>"

text \<open>
  Entries for the same object carry the same snapshot. The constructor establishes
  this, and no method writes \<open>obj\<close>, \<open>pos\<close> or \<open>info_up\<close>.
\<close>

definition snapshot_consistent :: "objinfo list \<Rightarrow> bool" where
  "snapshot_consistent infos =
     (\<forall>i\<in>set infos. \<forall>j\<in>set infos.
        obj i = obj j \<longrightarrow> pos i = pos j \<and> info_up i = info_up j)"

text \<open>What \<^verbatim>\<open>reset\<close> does to the scene, and the event it dispatches for an entry.\<close>

fun restore_scene :: "objinfo list \<Rightarrow> (objref \<Rightarrow> object3d) \<Rightarrow> (objref \<Rightarrow> object3d)" where
  "restore_scene [] sc = sc"
| "restore_scene (i # infos) sc =
     restore_scene infos (sc(obj i := (sc (obj i))\<lparr>position := pos i, up := info_up i\<rparr>))"

definition reset_event :: "state \<Rightarrow> objinfo \<Rightarrow> event" where
  "reset_event s i = ChangeEvent (vectors s (target i)) (obj i) (last_pos i)"

definition reset_moved :: "objinfo \<Rightarrow> bool" where
  "reset_moved i = (EPS < distanceToSquared (last_pos i) (pos i))"

text \<open>The \<^verbatim>\<open>moveChange\<close> events for an object among a list of events.\<close>

definition changes_of :: "objref \<Rightarrow> event list \<Rightarrow> event list" where
  "changes_of ob evs =
     filter (\<lambda>e. case e of ChangeEvent l ob' p \<Rightarrow> ob' = ob | _ \<Rightarrow> False) evs"


text \<open>
  A pan control over an object at (0, 0, 5) after a horizontal drag that moves the
  object to x = 0.002, more than the epsilon, and is reported.
\<close>

definition moved_once :: state where
  "moved_once =
     pan_all \<lparr>px = - (4 / 10000), py = 0\<rparr> (demo PanControl \<lparr>vx = 0, vy = 0, vz = 5\<rparr>)"

text \<open>
  The same control after two more drags: the second moves the object to x = 0.0006
  and is reported, the third moves it to x = 0.0012, less than the epsilon away, and
  is not.
\<close>

definition drifted :: state where
  "drifted =
     pan_all \<lparr>px = - (12 / 100000), py = 0\<rparr>
       (pan_all \<lparr>px = 28 / 100000, py = 0\<rparr> moved_once)"


text \<open>A rotation control whose \<^verbatim>\<open>speed\<close> the host has set to -1.\<close>

definition reversed :: state where
  "reversed = (demo RotationControl \<lparr>vx = 0, vy = 0, vz = 5\<rparr>)\<lparr>speed := - 1\<rparr>"

text \<open>
  A control whose host holds one more vector, (1, 2, 3), at address 1.
\<close>

definition with_host_vector :: state where
  "with_host_vector =
     (demo PanControl \<lparr>vx = 0, vy = 0, vz = 5\<rparr>)
       \<lparr>vectors := (\<lambda>r. if r = 1 then \<lparr>vx = 1, vy = 2, vz = 3\<rparr> else zero3), fresh := 2\<rparr>"

section \<open>Vectors: lengths\<close>

lemma vector3_eqI: "vx a = vx b \<Longrightarrow> vy a = vy b \<Longrightarrow> vz a = vz b \<Longrightarrow> (a::vector3) = b"
  by simp

lemma lengthSq_nonneg: "0 \<le> lengthSq a"
  by (simp add: lengthSq_def)

lemma lengthSq_zero_iff: "lengthSq a = 0 \<longleftrightarrow> a = zero3"
proof
  assume "lengthSq a = 0"
  then have "vx a * vx a + vy a * vy a + vz a * vz a = 0"
    by (simp add: lengthSq_def)
  then have "vx a = 0 \<and> vy a = 0 \<and> vz a = 0"
    by (smt (verit) zero_le_square mult_eq_0_iff)
  then show "a = zero3"
    by (simp add: zero3_def)
next
  assume "a = zero3"
  then show "lengthSq a = 0"
    by (simp add: lengthSq_def zero3_def)
qed

lemma length3_zero_iff: "length3 a = 0 \<longleftrightarrow> a = zero3"
  by (simp add: length3_def lengthSq_zero_iff)

lemma length3_nonneg: "0 \<le> length3 a"
  by (simp add: length3_def lengthSq_nonneg)

lemma lengthSq_multiplyScalar: "lengthSq (multiplyScalar a k) = k * k * lengthSq a"
  by (simp add: lengthSq_def multiplyScalar_def algebra_simps)

lemma length3_sq: "length3 a * length3 a = lengthSq a"
  by (simp add: length3_def lengthSq_nonneg)

lemma lengthSq_normalize3: "a \<noteq> zero3 \<Longrightarrow> lengthSq (normalize3 a) = 1"
proof -
  assume nz: "a \<noteq> zero3"
  then have l: "length3 a \<noteq> 0"
    by (simp add: length3_zero_iff)
  have "lengthSq (normalize3 a) = lengthSq a / (length3 a * length3 a)"
    using l by (simp add: normalize3_def divideScalar_def lengthSq_def add_divide_distrib)
  also have "\<dots> = 1"
    using nz by (simp add: length3_sq lengthSq_zero_iff)
  finally show ?thesis .
qed

lemma lengthSq_setLength: "a \<noteq> zero3 \<Longrightarrow> lengthSq (setLength a l) = l * l"
  by (simp add: setLength_def lengthSq_multiplyScalar lengthSq_normalize3)

lemma length3_setLength: "a \<noteq> zero3 \<Longrightarrow> length3 (setLength a l) = \<bar>l\<bar>"
  by (simp add: length3_def lengthSq_setLength)

lemma setLength_zero3: "setLength zero3 l = zero3"
  by (simp add: setLength_def normalize3_def divideScalar_def multiplyScalar_def zero3_def length3_def lengthSq_def)




lemma sub3_add3: "sub3 (add3 t e) t = e"
  by (simp add: sub3_def add3_def)

section \<open>The pipeline: what a step leaves alone\<close>


lemma checkChange_keeps:
  assumes "checkChange info s = (info', s')"
  shows "obj info' = obj info" "target info' = target info" "pos info' = pos info"
    "info_up info' = info_up info" "last_angle info' = last_angle info" "last_axis info' = last_axis info"
    "scene s' = scene s" "vectors s' = vectors s" "mouse s' = mouse s"
    "touchStart s' = touchStart s" "touchEnd s' = touchEnd s" "fresh s' = fresh s"
    "dynamicDampingFactor s' = dynamicDampingFactor s" "speed s' = speed s"
    "minDistance s' = minDistance s" "maxDistance s' = maxDistance s" "cls s' = cls s"
    "rect s' = rect s" "button s' = button s" "objInfo s' = objInfo s"
  using assms by (auto simp: checkChange_def dispatchEvent_def split: if_splits)

lemma setEye_keeps:
  assumes "setEye info e s = (info', s')"
  shows "obj info' = obj info" "target info' = target info" "pos info' = pos info"
    "info_up info' = info_up info" "last_angle info' = last_angle info" "last_axis info' = last_axis info"
    "vectors s' = vectors s" "mouse s' = mouse s"
    "touchStart s' = touchStart s" "touchEnd s' = touchEnd s" "fresh s' = fresh s"
    "dynamicDampingFactor s' = dynamicDampingFactor s" "speed s' = speed s"
    "minDistance s' = minDistance s" "maxDistance s' = maxDistance s" "cls s' = cls s"
    "rect s' = rect s" "button s' = button s" "objInfo s' = objInfo s"
  using assms checkChange_keeps [of info "s\<lparr>scene := (scene s)(obj info := lookAt ((scene s (obj info))\<lparr>position := add3 (vectors s (target info)) e\<rparr>) (vectors s (target info)))\<rparr>" info' s']
  by (simp_all add: setEye_def Let_def)

lemma setEye_position:
  assumes "setEye info e s = (info', s')"
  shows "position (scene s' (obj info)) = add3 (vectors s (target info)) e"
    and "up (scene s' (obj info)) = up (scene s (obj info))"
    and "getEye info' s' = e"
proof -
  let ?s1 = "s\<lparr>scene := (scene s)(obj info := lookAt ((scene s (obj info))\<lparr>position := add3 (vectors s (target info)) e\<rparr>) (vectors s (target info)))\<rparr>"
  have c: "checkChange info ?s1 = (info', s')"
    using assms by (simp add: setEye_def Let_def)
  have sc: "scene s' = scene ?s1" and v: "vectors s' = vectors s"
    and t: "target info' = target info" and ob: "obj info' = obj info"
    using checkChange_keeps [OF c] by simp_all
  show "position (scene s' (obj info)) = add3 (vectors s (target info)) e"
    by (simp add: sc lookAt_def)
  show "up (scene s' (obj info)) = up (scene s (obj info))"
    by (simp add: sc lookAt_def)
  show "getEye info' s' = e"
    by (simp add: getEye_def sc v t ob lookAt_def sub3_add3)
qed

section \<open>The states of the examples\<close>

lemma demo_fields:
  "cls (demo c p) = c"
  "speed (demo c p) = 1"
  "dynamicDampingFactor (demo c p) = 1 / 5"
  "objInfo (demo c p) = [demo_info p]"
  "mouse (demo c p) = \<lparr>capture = False, curr2 = zero2, prev = zero2\<rparr>"
  "rect (demo c p) = \<lparr>rleft = 0, rtop = 0, rwidth = 100, rheight = 100\<rparr>"
  "minDistance (demo c p) = 0"
  "maxDistance (demo c p) = Infinity"
  "touchStart (demo c p) = 0"
  "touchEnd (demo c p) = 0"
  "scene (demo c p) = (\<lambda>ob. demo_object p)"
  "vectors (demo c p) = (\<lambda>r. zero3)"
  "fresh (demo c p) = 1"
  "dispatched (demo c p) = []"
  by (simp_all add: demo_def new_control_def resize_def demo_env_def demo_info_def demo_object_def Let_def fun_eq_iff)

lemma demo_button:
  "button (demo c p) = (case c of PanControl \<Rightarrow> ButtonRight | ZoomControl \<Rightarrow> ButtonMiddle | _ \<Rightarrow> ButtonLeft)"
  by (simp add: demo_def new_control_def resize_def demo_env_def Let_def split: prod.splits)

lemma length3_axis: "length3 \<lparr>vx = 0, vy = 0, vz = c\<rparr> = \<bar>c\<bar>"
  by (simp add: length3_def lengthSq_def)

section \<open>Zoom: the clamps\<close>





text \<open>
  The bounds matter as well: with \<^verbatim>\<open>minDistance = 2\<close> above
  \<^verbatim>\<open>maxDistance = 1\<close>, an eye of length 10 is clamped twice and ends at length 2.
\<close>

lemma clamp_inverted_bounds:
  "length3 (fst (clampMin 2 (clampMax (Finite 1) (\<lparr>vx = 0, vy = 0, vz = 10\<rparr>, Number d)))) = 2"
proof -
  let ?e = "\<lparr>vx = 0, vy = 0, vz = 10\<rparr>"
  have nz: "?e \<noteq> zero3"
    by (simp add: zero3_def)
  have l: "lengthSq (setLength ?e 1) = 1"
    using lengthSq_setLength [OF nz, of 1] by simp
  then have nz1: "setLength ?e 1 \<noteq> zero3"
    using lengthSq_zero_iff [of "setLength ?e 1"] by simp
  have "clampMax (Finite 1) (?e, Number d) = (setLength ?e 1, Undefined)"
    by (simp add: clampMax_def lengthSq_def)
  then have "fst (clampMin 2 (clampMax (Finite 1) (?e, Number d))) = setLength (setLength ?e 1) 2"
    by (simp add: clampMin_def l)
  then show ?thesis
    using length3_setLength [OF nz1, of 2] by simp
qed

section \<open>The touch hooks\<close>

text \<open>
  C8, as the code has it. Of the touch hooks of the base class \<^verbatim>\<open>THREE.TouchControl\<close>,
  touch end and touch move raise the error "Not implemented"; touch start raises
  nothing: it dispatches \<^verbatim>\<open>moveStart\<close> with the pointer's coordinates and returns.
\<close>

theorem touch_hooks_of_base:
  "TouchControl_touchEnd e s = Inl NotImplemented
   \<and> TouchControl_touchMove e s = Inl NotImplemented
   \<and> TouchControl_touchStart e s
       = Inr (s\<lparr>dispatched :=
                  dispatched s @ [MoveEvent moveStart (curr2 (mouse s)) (prev (mouse s))]\<rparr>)"
  by (simp add: TouchControl_touchEnd_def TouchControl_touchMove_def TouchControl_touchStart_def
      notImplemented_def dispatchMove_def dispatchEvent_def)

text \<open>
  The claim as stated fails for touch start: on a new touch control the hook returns
  normally, with one \<^verbatim>\<open>moveStart\<close> event dispatched.
\<close>

theorem touchStart_of_base_counterexample:
  "TouchControl_touchStart \<lparr>touches = []\<rparr> (demo TouchControl zero3) \<noteq> Inl NotImplemented
   \<and> map_sum id dispatched (TouchControl_touchStart \<lparr>touches = []\<rparr> (demo TouchControl zero3))
       = Inr [MoveEvent moveStart zero2 zero2]"
  by (simp add: TouchControl_touchStart_def dispatchMove_def dispatchEvent_def demo_fields)

text \<open>
  C6. The touch end hook of the zoom control stops the gesture only while more than
  one contact remains. With one contact left, or none, it returns without dispatching
  anything: the state is the one it was called in.
\<close>

theorem zoom_touchEnd_last_contacts:
  "ZoomControl_touchEnd \<lparr>touches = [t]\<rparr> s = Some s
   \<and> ZoomControl_touchEnd \<lparr>touches = []\<rparr> s = Some s"
  by (simp add: ZoomControl_touchEnd_def)

lemma zoom_touchEnd_more_contacts:
  "1 < length (touches e) \<Longrightarrow> cls s = ZoomControl \<Longrightarrow>
   ZoomControl_touchEnd e s
     = Some (s\<lparr>dispatched :=
                 dispatched s @ [MoveEvent moveStop (curr2 (mouse s)) (prev (mouse s))]\<rparr>)"
  by (simp add: ZoomControl_touchEnd_def stopMove_def MouseControl_stopMove_def dispatchMove_def
      dispatchEvent_def)

section \<open>The press\<close>

text \<open>
  A press with another button is ignored; a press with the bound button away from
  the page origin stores the normalized press position twice; a press at the page
  origin stores the old current coordinates twice.
\<close>

lemma shr1_100: "shr1 100 = 50"
  by (simp add: shr1_def toInt32_def wrap32_def)

lemma shl1_0: "shl1 0 = 0"
  by (simp add: shl1_def toInt32_def wrap32_def)

lemma offsetCalc_capture:
  "offsetCalc x y (s\<lparr>mouse := m\<rparr>) = offsetCalc x y s"
  by (simp add: offsetCalc_def RotationControl_offsetCalc_def MouseControl_offsetCalc_def getRect_def)

lemma mouseDown_other_button:
  "ev_button e \<noteq> button_code (button s) \<Longrightarrow> mouseDown e s = Some s"
  by (simp add: mouseDown_def)

lemma mouseDown_saves_press:
  assumes b: "ev_button e = button_code (button s)"
    and xy: "pageX e \<noteq> 0 \<or> pageY e \<noteq> 0"
    and c: "offsetCalc (pageX e) (pageY e) s = Some c"
  shows "mouseDown e s
    = Some (s\<lparr>mouse := \<lparr>capture = True, curr2 = c, prev = c\<rparr>,
              dispatched := dispatched s @ [MoveEvent moveStart c c]\<rparr>)"
  using assms
  by (auto simp: mouseDown_def startMove_def saveMove_def truthy_def or0_def offsetCalc_capture
      dispatchMove_def dispatchEvent_def)

lemma mouseDown_at_origin:
  assumes b: "ev_button e = button_code (button s)"
    and xy: "pageX e = 0" "pageY e = 0"
  shows "mouseDown e s
    = Some (s\<lparr>mouse := \<lparr>capture = True, curr2 = curr2 (mouse s), prev = curr2 (mouse s)\<rparr>,
              dispatched := dispatched s @ [MoveEvent moveStart (curr2 (mouse s)) (curr2 (mouse s))]\<rparr>)"
  using assms
  by (auto simp: mouseDown_def startMove_def saveMove_def truthy_def or0_def
      dispatchMove_def dispatchEvent_def)

text \<open>
  C4. The first press on a new rotation control, on a page of 100 by 100, at the page
  origin (\<^verbatim>\<open>pageX = 0\<close>, \<^verbatim>\<open>pageY = 0\<close>) with the bound button: the press
  position normalizes to (-1, 1), but \<^verbatim>\<open>_saveMove(0, 0)\<close> takes both arguments
  for missing, so the current coordinates stay (0, 0) and \<^verbatim>\<open>moveStart\<close> carries
  (0, 0) twice. (For any other press position \<open>mouseDown_saves_press\<close> holds.)
\<close>

theorem press_at_page_origin:
  "offsetCalc 0 0 (demo RotationControl p) = Some \<lparr>px = - 1, py = 1\<rparr>
   \<and> map_option (\<lambda>s. (curr2 (mouse s), prev (mouse s), dispatched s))
        (mouseDown \<lparr>ev_button = 0, pageX = 0, pageY = 0\<rparr> (demo RotationControl p))
       = Some (zero2, zero2, [MoveEvent moveStart zero2 zero2])"
  by (simp add: offsetCalc_def RotationControl_offsetCalc_def getRect_def demo_fields demo_button
      shr1_100 shl1_0 js_div_def mouseDown_at_origin)

section \<open>Targets\<close>

text \<open>The search of \<^verbatim>\<open>getObjectInfo_\<close>, and the two methods on an object it finds.\<close>

lemma findInfo_None: "(findInfo infos ob = None) = (ob \<notin> obj ` set infos)"
  by (induction infos) simp_all

lemma findInfo_Some:
  "findInfo infos ob = Some k \<Longrightarrow> k < length infos \<and> obj (infos ! k) = ob"
proof (induction infos arbitrary: k)
  case Nil
  then show ?case by simp
next
  case (Cons a infos)
  show ?case
  proof (cases "obj a = ob")
    case True
    with Cons.prems show ?thesis by simp
  next
    case False
    with Cons.prems obtain j where j: "findInfo infos ob = Some j" "k = Suc j"
      by auto
    from Cons.IH [OF j(1)] j(2) show ?thesis by simp
  qed
qed

lemma findInfo_cong: "map obj infos' = map obj infos \<Longrightarrow> findInfo infos' ob = findInfo infos ob"
proof (induction infos arbitrary: infos')
  case Nil
  then show ?case by simp
next
  case (Cons a infos)
  from Cons.prems obtain b rest where b: "infos' = b # rest" "obj b = obj a" "map obj rest = map obj infos"
    by (cases infos') auto
  from Cons.IH [OF b(3)] b(1,2) show ?case by simp
qed

lemma map_obj_retarget:
  "map obj (infos[k := (infos ! k)\<lparr>target := r\<rparr>]) = map obj infos"
proof (cases "k < length infos")
  case True
  then have "(map obj infos)[k := obj (infos ! k)] = map obj infos"
    by (simp add: list_update_same_conv)
  then show ?thesis
    by (simp add: map_update)
next
  case False
  then have "length infos \<le> k" by simp
  then have "infos[k := (infos ! k)\<lparr>target := r\<rparr>] = infos"
    by (rule list_update_beyond)
  then show ?thesis by simp
qed

lemma getTarget_registered:
  assumes "findInfo (objInfo s) ob = Some k"
  shows "getTarget ob s
    = (Some (fresh s),
       s\<lparr>vectors := (vectors s)(fresh s := vectors s (target (objInfo s ! k))),
         fresh := Suc (fresh s)\<rparr>)"
  by (simp add: getTarget_def getObjectInfo_def assms clone_def)

lemma setTarget_registered:
  assumes "findInfo (objInfo s) ob = Some k"
  shows "setTarget ob t s
    = (Some (target (objInfo s ! k)),
       s\<lparr>vectors := (vectors s)(fresh s := vectors s t),
         fresh := Suc (fresh s),
         objInfo := (objInfo s)[k := (objInfo s ! k)\<lparr>target := fresh s\<rparr>]\<rparr>)"
  by (simp add: setTarget_def getObjectInfo_def assms clone_def)

lemma storedTarget_eq:
  assumes "findInfo (objInfo s) ob = Some k"
  shows "storedTarget ob s = Some (vectors s (target (objInfo s ! k)))"
  by (simp add: storedTarget_def getObjectInfo_def assms)


lemma findInfo_retarget:
  assumes "findInfo (objInfo s) ob = Some k"
  shows "findInfo ((objInfo s)[k := (objInfo s ! k)\<lparr>target := r\<rparr>]) ob = Some k"
  using assms findInfo_cong [OF map_obj_retarget, of "objInfo s" k r ob] by simp

text \<open>
  C9. For an object the control does not hold, \<^verbatim>\<open>getTarget\<close> and \<^verbatim>\<open>setTarget\<close>
  return nothing and leave the state as it is. For an object it holds,
  \<^verbatim>\<open>getTarget\<close> returns a vector whose value is the current target and leaves the
  entries as they are, and \<^verbatim>\<open>setTarget\<close> returns the previous target vector and
  makes the value of its argument the target.
\<close>

theorem target_access:
  "(ob \<notin> obj ` set (objInfo s) \<longrightarrow> getTarget ob s = (None, s) \<and> setTarget ob t s = (None, s))
   \<and> (ob \<in> obj ` set (objInfo s) \<longrightarrow>
        (\<exists>k. getObjectInfo s ob = Some k \<and> k < length (objInfo s) \<and> obj (objInfo s ! k) = ob
           \<and> (\<exists>r s1. getTarget ob s = (Some r, s1)
                 \<and> vectors s1 r = vectors s (target (objInfo s ! k))
                 \<and> objInfo s1 = objInfo s \<and> storedTarget ob s1 = storedTarget ob s)
           \<and> (\<exists>s2. setTarget ob t s = (Some (target (objInfo s ! k)), s2)
                 \<and> objInfo s2 = (objInfo s)[k := (objInfo s ! k)\<lparr>target := fresh s\<rparr>]
                 \<and> storedTarget ob s2 = Some (vectors s t))))"
proof (cases "findInfo (objInfo s) ob")
  case None
  then have "ob \<notin> obj ` set (objInfo s)"
    by (simp add: findInfo_None)
  with None show ?thesis
    by (simp add: getTarget_def setTarget_def getObjectInfo_def)
next
  case (Some k)
  let ?s1 = "s\<lparr>vectors := (vectors s)(fresh s := vectors s (target (objInfo s ! k))),
                fresh := Suc (fresh s)\<rparr>"
  let ?s2 = "s\<lparr>vectors := (vectors s)(fresh s := vectors s t), fresh := Suc (fresh s),
                objInfo := (objInfo s)[k := (objInfo s ! k)\<lparr>target := fresh s\<rparr>]\<rparr>"
  have k: "k < length (objInfo s)" "obj (objInfo s ! k) = ob"
    using findInfo_Some [OF Some] by simp_all
  have g: "getTarget ob s = (Some (fresh s), ?s1)"
    by (rule getTarget_registered [OF Some])
  have st: "setTarget ob t s = (Some (target (objInfo s ! k)), ?s2)"
    by (rule setTarget_registered [OF Some])
  have f1: "findInfo (objInfo ?s1) ob = Some k"
    using Some by simp
  have f2: "findInfo (objInfo ?s2) ob = Some k"
    using findInfo_retarget [OF Some, of "fresh s"] by simp
  have v1: "storedTarget ob ?s1 = storedTarget ob s"
    by (simp add: storedTarget_def getObjectInfo_def Some)
  have v2: "storedTarget ob ?s2 = Some (vectors s t)"
    using k(1) by (simp add: storedTarget_eq [OF f2])
  have reg: "ob \<in> obj ` set (objInfo s)"
    using Some findInfo_None [of "objInfo s" ob] by simp
  have "getObjectInfo s ob = Some k"
    by (simp add: getObjectInfo_def Some)
  then show ?thesis
    using k g st v1 v2 reg by simp
qed

text \<open>The witness: a new control over object 0, asked about object 1 and object 0.\<close>

theorem target_access_witness:
  "getTarget 1 (demo PanControl zero3) = (None, demo PanControl zero3)
   \<and> setTarget 1 0 (demo PanControl zero3) = (None, demo PanControl zero3)
   \<and> fst (getTarget 0 (demo PanControl zero3)) = Some 1
   \<and> fst (setTarget 0 0 (demo PanControl zero3)) = Some 0
   \<and> storedTarget 0 (snd (setTarget 0 0 (demo PanControl zero3))) = Some zero3"
proof -
  let ?d = "demo PanControl zero3"
  have n: "1 \<notin> obj ` set (objInfo ?d)" and r: "0 \<in> obj ` set (objInfo ?d)"
    by (simp_all add: demo_fields demo_info_def)
  have t: "target (objInfo ?d ! 0) = 0" and f: "fresh ?d = 1" and v: "vectors ?d 0 = zero3"
    by (simp_all add: demo_fields demo_info_def)
  have g: "getObjectInfo ?d 0 = Some 0"
    by (simp add: getObjectInfo_def demo_fields demo_info_def)
  have a: "getTarget 1 ?d = (None, ?d) \<and> setTarget 1 0 ?d = (None, ?d)"
    using target_access [of 1 ?d 0] n by blast
  obtain k s2 where b: "getObjectInfo ?d 0 = Some k"
      "setTarget 0 0 ?d = (Some (target (objInfo ?d ! k)), s2)"
      "storedTarget 0 s2 = Some (vectors ?d 0)"
    using target_access [of 0 ?d 0] r by blast
  have k: "k = 0"
    using b(1) g by simp
  have b': "fst (setTarget 0 0 ?d) = Some 0 \<and> storedTarget 0 (snd (setTarget 0 0 ?d)) = Some zero3"
    unfolding b(2) using b(3) t v k by simp
  have f0: "findInfo (objInfo ?d) 0 = Some 0"
    by (simp add: demo_fields demo_info_def)
  have c: "fst (getTarget 0 ?d) = Some 1"
    unfolding getTarget_registered [OF f0] using f by simp
  from a b' c show ?thesis
    by blast
qed

text \<open>
  C10. For an object the control holds and a vector \<open>t\<close> of the host:
  \<^verbatim>\<open>getTarget\<close> after \<^verbatim>\<open>setTarget(object, t)\<close> returns a vector equal to
  \<open>t\<close>, and the target the control holds keeps that value when the host afterwards
  writes to \<open>t\<close> or to the vector \<^verbatim>\<open>getTarget\<close> returned.
\<close>

theorem target_round_trip:
  assumes reg: "ob \<in> obj ` set (objInfo s)" and t: "t < fresh s"
  shows "\<exists>origin s1 r s2. setTarget ob t s = (origin, s1) \<and> getTarget ob s1 = (Some r, s2)
      \<and> vectors s2 r = vectors s t
      \<and> storedTarget ob s1 = Some (vectors s t)
      \<and> (\<forall>v. storedTarget ob (mutate t v s1) = Some (vectors s t))
      \<and> (\<forall>v. storedTarget ob (mutate r v s2) = Some (vectors s t))"
proof -
  obtain k where Some: "findInfo (objInfo s) ob = Some k"
    using reg findInfo_None [of "objInfo s" ob] by auto
  let ?s1 = "s\<lparr>vectors := (vectors s)(fresh s := vectors s t), fresh := Suc (fresh s),
                objInfo := (objInfo s)[k := (objInfo s ! k)\<lparr>target := fresh s\<rparr>]\<rparr>"
  let ?s2 = "?s1\<lparr>vectors := (vectors ?s1)(fresh ?s1 := vectors ?s1 (target (objInfo ?s1 ! k))),
                fresh := Suc (fresh ?s1)\<rparr>"
  have k: "k < length (objInfo s)"
    using findInfo_Some [OF Some] by simp
  have st: "setTarget ob t s = (Some (target (objInfo s ! k)), ?s1)"
    by (rule setTarget_registered [OF Some])
  have f1: "findInfo (objInfo ?s1) ob = Some k"
    using findInfo_retarget [OF Some, of "fresh s"] by simp
  have g: "getTarget ob ?s1 = (Some (fresh ?s1), ?s2)"
    by (rule getTarget_registered [OF f1])
  have tk: "target (objInfo ?s1 ! k) = fresh s"
    using k by simp
  have v: "vectors ?s2 (fresh ?s1) = vectors s t"
    using k by simp
  have a: "storedTarget ob ?s1 = Some (vectors s t)"
    using k by (simp add: storedTarget_eq [OF f1])
  have b: "storedTarget ob (mutate t v ?s1) = Some (vectors s t)" for v
  proof -
    have "findInfo (objInfo (mutate t v ?s1)) ob = Some k"
      using f1 by (simp add: mutate_def)
    from storedTarget_eq [OF this] show ?thesis
      using k t by (simp add: mutate_def)
  qed
  have c: "storedTarget ob (mutate (fresh ?s1) v ?s2) = Some (vectors s t)" for v
  proof -
    have "findInfo (objInfo (mutate (fresh ?s1) v ?s2)) ob = Some k"
      using f1 by (simp add: mutate_def)
    from storedTarget_eq [OF this] show ?thesis
      using k by (simp add: mutate_def)
  qed
  show ?thesis
    using st g v a b c by blast
qed

text \<open>The witness: the host sets the target of object 0 to its vector (1, 2, 3).\<close>

lemma with_host_vector_fields:
  "objInfo with_host_vector = [demo_info \<lparr>vx = 0, vy = 0, vz = 5\<rparr>]"
  "fresh with_host_vector = 2"
  "vectors with_host_vector 1 = \<lparr>vx = 1, vy = 2, vz = 3\<rparr>"
  by (simp_all add: with_host_vector_def demo_fields)

theorem target_round_trip_witness:
  "\<exists>origin s1 r s2. setTarget 0 1 with_host_vector = (origin, s1)
      \<and> getTarget 0 s1 = (Some r, s2)
      \<and> vectors s2 r = \<lparr>vx = 1, vy = 2, vz = 3\<rparr>
      \<and> storedTarget 0 (mutate 1 zero3 s1) = Some \<lparr>vx = 1, vy = 2, vz = 3\<rparr>
      \<and> storedTarget 0 (mutate r zero3 s2) = Some \<lparr>vx = 1, vy = 2, vz = 3\<rparr>"
proof -
  have r: "0 \<in> obj ` set (objInfo with_host_vector)"
    by (simp add: with_host_vector_fields demo_info_def)
  have t: "1 < fresh with_host_vector"
    by (simp add: with_host_vector_fields)
  obtain origin s1 r' s2 where a: "setTarget 0 1 with_host_vector = (origin, s1)"
      "getTarget 0 s1 = (Some r', s2)"
      "vectors s2 r' = vectors with_host_vector 1"
      "\<forall>v. storedTarget 0 (mutate 1 v s1) = Some (vectors with_host_vector 1)"
      "\<forall>v. storedTarget 0 (mutate r' v s2) = Some (vectors with_host_vector 1)"
    using target_round_trip [OF r t] by blast
  from a show ?thesis
    unfolding with_host_vector_fields(3) by blast
qed

section \<open>Pan\<close>

text \<open>A horizontal pan step with eye (0, 0, 5) and up-vector (0, 1, 0), computed.\<close>

lemma length3_xaxis: "length3 \<lparr>vx = c, vy = 0, vz = 0\<rparr> = \<bar>c\<bar>"
  by (simp add: length3_def lengthSq_def)

lemma setLength_to_zero: "setLength a 0 = zero3"
  by (simp add: setLength_def multiplyScalar_def zero3_def)

lemma setLength_xaxis: "c \<noteq> 0 \<Longrightarrow> setLength \<lparr>vx = c, vy = 0, vz = 0\<rparr> l = \<lparr>vx = c / \<bar>c\<bar> * l, vy = 0, vz = 0\<rparr>"
  by (simp add: setLength_def normalize3_def length3_xaxis divideScalar_def multiplyScalar_def)

lemma pan_horizontal_step:
  assumes c: "py change = 0"
    and u: "up (scene s (obj info)) = \<lparr>vx = 0, vy = 1, vz = 0\<rparr>"
    and e: "getEye info s = \<lparr>vx = 0, vy = 0, vz = 5\<rparr>"
  shows "pan change info s
    = setEye info \<lparr>vx = 0, vy = 0, vz = 5\<rparr>
        (s\<lparr>vectors := (vectors s)(target info :=
             add3 (vectors s (target info)) \<lparr>vx = - (5 * px change * speed s), vy = 0, vz = 0\<rparr>)\<rparr>)"
proof -
  have cr: "cross \<lparr>vx = 0, vy = 0, vz = 5\<rparr> \<lparr>vx = 0, vy = 1, vz = 0\<rparr> = \<lparr>vx = - 5, vy = 0, vz = 0\<rparr>"
    by (simp add: cross_def)
  have sl: "setLength \<lparr>vx = - 5, vy = 0, vz = 0\<rparr> l = \<lparr>vx = - l, vy = 0, vz = 0\<rparr>" for l
    using setLength_xaxis [of "- 5" l] by simp
  have st: "add3 (setLength \<lparr>vx = - 5, vy = 0, vz = 0\<rparr> (px change * (5 * speed s)))
              (setLength \<lparr>vx = 0, vy = 1, vz = 0\<rparr> 0)
            = \<lparr>vx = - (5 * px change * speed s), vy = 0, vz = 0\<rparr>"
    by (simp add: sl setLength_to_zero add3_def zero3_def)
  show ?thesis
    by (simp add: pan_def Let_def e u cr c multiplyScalar2_def length3_axis st)
qed

text \<open>
  C7. A pan step with a horizontal drag (\<open>py change = 0\<close>), up-vector (0, 1, 0) and
  eye (0, 0, 5) moves the target along \<open>cross eye up\<close> only, by that vector times
  \<open>px change * speed\<close>; the component of the target along \<open>up\<close> is unchanged, and
  the position is the new target plus the eye.
\<close>

theorem pan_horizontal:
  assumes c: "py change = 0"
    and u: "up (scene s (obj info)) = \<lparr>vx = 0, vy = 1, vz = 0\<rparr>"
    and e: "getEye info s = \<lparr>vx = 0, vy = 0, vz = 5\<rparr>"
  shows "\<exists>info' s'. pan change info s = (info', s') \<and> target info' = target info
      \<and> vectors s' (target info)
          = add3 (vectors s (target info))
              (multiplyScalar (cross (getEye info s) (up (scene s (obj info)))) (px change * speed s))
      \<and> dot (vectors s' (target info)) (up (scene s (obj info)))
          = dot (vectors s (target info)) (up (scene s (obj info)))
      \<and> position (scene s' (obj info)) = add3 (vectors s' (target info)) (getEye info s)"
proof -
  let ?t = "add3 (vectors s (target info)) \<lparr>vx = - (5 * px change * speed s), vy = 0, vz = 0\<rparr>"
  let ?s1 = "s\<lparr>vectors := (vectors s)(target info := ?t)\<rparr>"
  obtain info' s' where se: "setEye info \<lparr>vx = 0, vy = 0, vz = 5\<rparr> ?s1 = (info', s')"
    by (cases "setEye info \<lparr>vx = 0, vy = 0, vz = 5\<rparr> ?s1")
  have p: "pan change info s = (info', s')"
    using pan_horizontal_step [OF c u e] se by simp
  have v: "vectors s' = vectors ?s1" and t: "target info' = target info"
    using setEye_keeps [OF se] by simp_all
  have v': "vectors s' (target info) = ?t"
    by (simp add: v)
  have pos: "position (scene s' (obj info)) = add3 ?t \<lparr>vx = 0, vy = 0, vz = 5\<rparr>"
    using setEye_position(1) [OF se] by simp
  have m: "multiplyScalar (cross (getEye info s) (up (scene s (obj info)))) (px change * speed s)
      = \<lparr>vx = - (5 * px change * speed s), vy = 0, vz = 0\<rparr>"
    by (simp add: e u cross_def multiplyScalar_def)
  have d: "dot ?t (up (scene s (obj info))) = dot (vectors s (target info)) (up (scene s (obj info)))"
    by (simp add: u dot_def add3_def)
  show ?thesis
    using p t v' pos m d e by simp
qed

text \<open>
  The witness: a drag of 1/10 to the right moves the target from the origin to
  (-1/2, 0, 0), and the object with it.
\<close>

theorem pan_horizontal_witness:
  "\<exists>info' s'. pan \<lparr>px = 1 / 10, py = 0\<rparr> (demo_info \<lparr>vx = 0, vy = 0, vz = 5\<rparr>)
        (demo PanControl \<lparr>vx = 0, vy = 0, vz = 5\<rparr>) = (info', s')
     \<and> vectors s' 0 = \<lparr>vx = - (1 / 2), vy = 0, vz = 0\<rparr>
     \<and> position (scene s' 0) = \<lparr>vx = - (1 / 2), vy = 0, vz = 5\<rparr>"
proof -
  let ?i = "demo_info \<lparr>vx = 0, vy = 0, vz = 5\<rparr>"
  let ?d = "demo PanControl \<lparr>vx = 0, vy = 0, vz = 5\<rparr>"
  let ?c = "\<lparr>px = 1 / 10, py = 0\<rparr>"
  have c: "py ?c = 0"
    by simp
  have u: "up (scene ?d (obj ?i)) = \<lparr>vx = 0, vy = 1, vz = 0\<rparr>"
    by (simp add: demo_fields demo_object_def)
  have e: "getEye ?i ?d = \<lparr>vx = 0, vy = 0, vz = 5\<rparr>"
    by (simp add: getEye_def demo_fields demo_object_def demo_info_def sub3_def zero3_def)
  have o: "obj ?i = 0" "target ?i = 0"
    by (simp_all add: demo_info_def)
  obtain info' s' where a: "pan ?c ?i ?d = (info', s')"
      "vectors s' (target ?i)
         = add3 (vectors ?d (target ?i))
             (multiplyScalar (cross (getEye ?i ?d) (up (scene ?d (obj ?i)))) (px ?c * speed ?d))"
      "position (scene s' (obj ?i)) = add3 (vectors s' (target ?i)) (getEye ?i ?d)"
    using pan_horizontal [OF c u e] by blast
  have u0: "up (scene ?d 0) = \<lparr>vx = 0, vy = 1, vz = 0\<rparr>"
    using u unfolding o .
  have v: "vectors s' 0 = \<lparr>vx = - (1 / 2), vy = 0, vz = 0\<rparr>"
    using a(2) unfolding e o u0
    by (simp add: demo_fields cross_def multiplyScalar_def add3_def zero3_def)
  have p: "position (scene s' 0) = \<lparr>vx = - (1 / 2), vy = 0, vz = 5\<rparr>"
    using a(3) unfolding e o v by (simp add: add3_def)
  from a(1) v p show ?thesis
    by blast
qed

section \<open>Orbit without a drag\<close>

lemma rotate_still_undamped:
  assumes "length3 direction = 0" and "dynamicDampingFactor s = 0"
  shows "rotate_angle direction info s = 0 \<and> rotate_obj direction info s = Some (info, s)"
  using assms by (simp add: rotate_angle_def rotate_obj_def rotate_last_def Let_def)

lemma rotate_still_damped:
  assumes d: "length3 direction = 0" and f: "dynamicDampingFactor s = 2 / 10"
    and a: "last_angle info \<noteq> 0"
  shows "\<exists>info' s'. rotate_obj direction info s = Some (info', s')
      \<and> last_angle info' = last_angle info * sqrt (1 - 2 / 10)"
proof -
  let ?i1 = "info\<lparr>last_angle := last_angle info * sqrt (1 - 2 / 10)\<rparr>"
  let ?q = "setFromAxisAngle (last_axis ?i1) (last_angle ?i1)"
  let ?s1 = "s\<lparr>scene := (scene s)(obj info := (scene s (obj info))\<lparr>up := applyQuaternion (up (scene s (obj info))) ?q\<rparr>)\<rparr>"
  obtain info' s' where se: "setEye ?i1 (applyQuaternion (getEye info s) ?q) ?s1 = (info', s')"
    by (cases "setEye ?i1 (applyQuaternion (getEye info s) ?q) ?s1")
  have ang: "rotate_angle direction info s = last_angle info"
    using d f by (simp add: rotate_angle_def)
  have l: "rotate_last direction info s = Some ?i1"
    using d f a by (simp add: rotate_last_def ang js_sqrt_def Let_def)
  have r: "rotate_obj direction info s = Some (info', s')"
    using se a by (simp add: rotate_obj_def l ang Let_def)
  have "last_angle info' = last_angle ?i1"
    using setEye_keeps [OF se] by simp
  then show ?thesis
    using r by simp
qed

text \<open>A drag stores its length times \<^verbatim>\<open>speed\<close> as the angle.\<close>

lemma rotate_drag:
  assumes d: "length3 direction \<noteq> 0"
  shows "\<exists>info' s'. rotate_obj direction info s = Some (info', s')
      \<and> last_angle info' = length3 direction * speed s
      \<and> dynamicDampingFactor s' = dynamicDampingFactor s"
proof -
  obtain i1 where l: "rotate_last direction info s = Some i1"
      and a: "last_angle i1 = length3 direction * speed s"
    using d by (simp add: rotate_last_def Let_def)
  let ?q = "setFromAxisAngle (last_axis i1) (last_angle i1)"
  let ?s1 = "s\<lparr>scene := (scene s)(obj info := (scene s (obj info))\<lparr>up := applyQuaternion (up (scene s (obj info))) ?q\<rparr>)\<rparr>"
  obtain info' s' where se: "setEye i1 (applyQuaternion (getEye info s) ?q) ?s1 = (info', s')"
    by (cases "setEye i1 (applyQuaternion (getEye info s) ?q) ?s1")
  have ang: "rotate_angle direction info s \<noteq> 0"
    using d by (simp add: rotate_angle_def)
  have r: "rotate_obj direction info s = Some (info', s')"
    using se ang by (simp add: rotate_obj_def l Let_def)
  have "last_angle info' = last_angle i1" "dynamicDampingFactor s' = dynamicDampingFactor ?s1"
    using setEye_keeps [OF se] by simp_all
  then show ?thesis
    using r a by simp
qed

text \<open>
  C3, as the code has it. An orbit step with a drag of length zero: with damping
  factor 0 the rotation angle is zero and neither the entry nor the state changes;
  with damping factor 0.2 and a stored angle other than zero, the new angle is the
  stored angle times \<open>sqrt (1 - 0.2)\<close>, so it is not zero and is strictly smaller in
  absolute value, and strictly smaller when the stored angle is positive.
\<close>

theorem rotate_still:
  assumes d: "length3 direction = 0"
  shows "(dynamicDampingFactor s = 0 \<longrightarrow>
            rotate_angle direction info s = 0 \<and> rotate_obj direction info s = Some (info, s))
       \<and> (dynamicDampingFactor s = 2 / 10 \<and> last_angle info \<noteq> 0 \<longrightarrow>
            (\<exists>info' s'. rotate_obj direction info s = Some (info', s')
               \<and> last_angle info' = last_angle info * sqrt (1 - 2 / 10)
               \<and> last_angle info' \<noteq> 0
               \<and> \<bar>last_angle info'\<bar> < \<bar>last_angle info\<bar>
               \<and> (0 < last_angle info \<longrightarrow> last_angle info' < last_angle info)))"
proof -
  have k: "0 < sqrt (1 - 2 / 10 :: real)" "sqrt (1 - 2 / 10 :: real) < 1"
    by simp_all
  have shrink: "a \<noteq> 0 \<Longrightarrow> a * sqrt (1 - 2 / 10) \<noteq> 0 \<and> \<bar>a * sqrt (1 - 2 / 10)\<bar> < \<bar>a\<bar>
      \<and> (0 < a \<longrightarrow> a * sqrt (1 - 2 / 10) < a)" for a :: real
  proof -
    assume a: "a \<noteq> 0"
    have "\<bar>a\<bar> * sqrt (1 - 2 / 10) < \<bar>a\<bar> * 1"
      using a k(2) by (intro mult_strict_left_mono) simp_all
    moreover have "\<bar>a * sqrt (1 - 2 / 10)\<bar> = \<bar>a\<bar> * sqrt (1 - 2 / 10)"
      using k(1) by (simp add: abs_mult)
    moreover have "0 < a \<Longrightarrow> a * sqrt (1 - 2 / 10) < a * 1"
      using k(2) by (intro mult_strict_left_mono) simp_all
    ultimately show ?thesis
      using a k(1) by simp
  qed
  show ?thesis
    using rotate_still_undamped [OF d, of s info] rotate_still_damped [OF d, of s info] shrink [of "last_angle info"]
    by auto
qed

text \<open>
  The witness: a stored angle of 1, with damping factor 0 and with the default 0.2.
\<close>

theorem rotate_still_witness:
  "rotate_obj zero3 ((demo_info \<lparr>vx = 0, vy = 0, vz = 5\<rparr>)\<lparr>last_angle := 1\<rparr>)
      ((demo RotationControl \<lparr>vx = 0, vy = 0, vz = 5\<rparr>)\<lparr>dynamicDampingFactor := 0\<rparr>)
    = Some ((demo_info \<lparr>vx = 0, vy = 0, vz = 5\<rparr>)\<lparr>last_angle := 1\<rparr>,
            (demo RotationControl \<lparr>vx = 0, vy = 0, vz = 5\<rparr>)\<lparr>dynamicDampingFactor := 0\<rparr>)
   \<and> (\<exists>info' s'.
         rotate_obj zero3 ((demo_info \<lparr>vx = 0, vy = 0, vz = 5\<rparr>)\<lparr>last_angle := 1\<rparr>)
           (demo RotationControl \<lparr>vx = 0, vy = 0, vz = 5\<rparr>) = Some (info', s')
         \<and> last_angle info' = sqrt (1 - 2 / 10) \<and> last_angle info' < 1)"
proof -
  let ?i = "(demo_info \<lparr>vx = 0, vy = 0, vz = 5\<rparr>)\<lparr>last_angle := 1\<rparr>"
  let ?d = "demo RotationControl \<lparr>vx = 0, vy = 0, vz = 5\<rparr>"
  have z: "length3 zero3 = 0"
    by (simp add: length3_zero_iff)
  have f0: "dynamicDampingFactor (?d\<lparr>dynamicDampingFactor := 0\<rparr>) = 0"
    by simp
  have f: "dynamicDampingFactor ?d = 2 / 10"
    by (simp add: demo_fields)
  have a: "last_angle ?i = 1"
    by simp
  have one: "rotate_obj zero3 ?i (?d\<lparr>dynamicDampingFactor := 0\<rparr>)
      = Some (?i, ?d\<lparr>dynamicDampingFactor := 0\<rparr>)"
    using rotate_still [OF z, of "?d\<lparr>dynamicDampingFactor := 0\<rparr>" ?i] f0 by blast
  have two: "\<exists>info' s'. rotate_obj zero3 ?i ?d = Some (info', s')
         \<and> last_angle info' = sqrt (1 - 2 / 10) \<and> last_angle info' < 1"
    using rotate_still [OF z, of ?d ?i] f unfolding a by auto
  from one two show ?thesis
    by blast
qed

text \<open>
  The claim as stated fails for a negative stored angle. With \<^verbatim>\<open>speed = -1\<close> a
  drag of length 1 stores the angle -1; the next step without a drag stores
  \<open>- sqrt (1 - 0.2)\<close>, which is larger than -1.
\<close>

theorem rotate_reversed_counterexample:
  "(case rotate_obj \<lparr>vx = 1, vy = 0, vz = 0\<rparr> (demo_info \<lparr>vx = 0, vy = 0, vz = 5\<rparr>) reversed of
      None \<Rightarrow> False
    | Some (i1, s1) \<Rightarrow>
        last_angle i1 = - 1 \<and> dynamicDampingFactor s1 = 2 / 10
        \<and> (case rotate_obj zero3 i1 s1 of
              None \<Rightarrow> False
            | Some (i2, s2) \<Rightarrow> last_angle i1 < last_angle i2))"
proof -
  let ?i = "demo_info \<lparr>vx = 0, vy = 0, vz = 5\<rparr>"
  have l: "length3 \<lparr>vx = 1, vy = 0, vz = 0\<rparr> = 1"
    by (simp add: length3_xaxis)
  have sp: "speed reversed = - 1" and df: "dynamicDampingFactor reversed = 2 / 10"
    by (simp_all add: reversed_def demo_fields)
  obtain i1 s1 where r1: "rotate_obj \<lparr>vx = 1, vy = 0, vz = 0\<rparr> ?i reversed = Some (i1, s1)"
      and a1: "last_angle i1 = - 1" and d1: "dynamicDampingFactor s1 = 2 / 10"
    using rotate_drag [of "\<lparr>vx = 1, vy = 0, vz = 0\<rparr>" ?i reversed] l sp df by auto
  have z: "length3 zero3 = 0"
    by (simp add: length3_zero_iff)
  have nz: "last_angle i1 \<noteq> 0"
    using a1 by simp
  obtain i2 s2 where r2: "rotate_obj zero3 i1 s1 = Some (i2, s2)"
      and a2: "last_angle i2 = last_angle i1 * sqrt (1 - 2 / 10)"
    using rotate_still_damped [OF z d1 nz] by blast
  have "sqrt (1 - 2 / 10 :: real) < 1"
    by simp
  then have "last_angle i1 < last_angle i2"
    using a1 a2 by simp
  then show ?thesis
    using r1 r2 a1 d1 by simp
qed

section \<open>Zoom: damping\<close>











section \<open>Reset\<close>

text \<open>\<^verbatim>\<open>reset\<close> in closed form: the scene, the events and the entries after it.\<close>

lemma reset_info_eq:
  "reset_info info s =
     (info\<lparr>last_pos := pos info\<rparr>,
      s\<lparr>scene := (scene s)(obj info := (scene s (obj info))\<lparr>position := pos info, up := info_up info\<rparr>),
        dispatched := dispatched s @ (if reset_moved info then [reset_event s info] else [])\<rparr>)"
  by (simp add: reset_info_def checkChange_def dispatchEvent_def reset_moved_def reset_event_def Let_def)

lemma forEach_reset_info:
  "forEach reset_info infos s =
     (map (\<lambda>i. i\<lparr>last_pos := pos i\<rparr>) infos,
      s\<lparr>scene := restore_scene infos (scene s),
        dispatched := dispatched s @ map (reset_event s) (filter reset_moved infos)\<rparr>)"
proof (induction infos arbitrary: s)
  case Nil
  show ?case by simp
next
  case (Cons a infos)
  define s1 where "s1 =
    s\<lparr>scene := (scene s)(obj a := (scene s (obj a))\<lparr>position := pos a, up := info_up a\<rparr>),
      dispatched := dispatched s @ (if reset_moved a then [reset_event s a] else [])\<rparr>"
  have r: "reset_info a s = (a\<lparr>last_pos := pos a\<rparr>, s1)"
    unfolding s1_def by (rule reset_info_eq)
  have e: "reset_event s1 = reset_event s"
    by (simp add: reset_event_def fun_eq_iff s1_def)
  have f: "forEach reset_info (a # infos) s =
      (a\<lparr>last_pos := pos a\<rparr> # map (\<lambda>i. i\<lparr>last_pos := pos i\<rparr>) infos,
       s1\<lparr>scene := restore_scene infos (scene s1),
          dispatched := dispatched s1 @ map (reset_event s) (filter reset_moved infos)\<rparr>)"
    by (simp add: r Cons.IH [of s1] e)
  show ?case
    unfolding f by (simp add: s1_def)
qed

lemma reset_eq:
  "reset s =
     s\<lparr>scene := restore_scene (objInfo s) (scene s),
       dispatched := dispatched s @ map (reset_event s) (filter reset_moved (objInfo s)),
       objInfo := map (\<lambda>i. i\<lparr>last_pos := pos i\<rparr>) (objInfo s)\<rparr>"
  by (simp add: reset_def forEach_reset_info)

lemma restore_scene_other:
  "ob \<notin> obj ` set infos \<Longrightarrow> restore_scene infos sc ob = sc ob"
proof (induction infos arbitrary: sc)
  case Nil
  show ?case by simp
next
  case (Cons a infos)
  let ?sc = "sc(obj a := (sc (obj a))\<lparr>position := pos a, up := info_up a\<rparr>)"
  from Cons.prems have n: "ob \<notin> obj ` set infos" and a: "ob \<noteq> obj a"
    by auto
  have "restore_scene infos ?sc ob = ?sc ob"
    using n by (rule Cons.IH)
  also have "\<dots> = sc ob"
    using a by simp
  finally show ?case
    by simp
qed

lemma snapshot_consistentD:
  "snapshot_consistent infos \<Longrightarrow> i \<in> set infos \<Longrightarrow> j \<in> set infos \<Longrightarrow> obj i = obj j \<Longrightarrow>
   pos i = pos j \<and> info_up i = info_up j"
  unfolding snapshot_consistent_def by blast

lemma snapshot_consistent_Cons:
  "snapshot_consistent (a # infos) \<Longrightarrow> snapshot_consistent infos"
  unfolding snapshot_consistent_def by (meson list.set_intros(2))

lemma restore_scene_registered:
  assumes "snapshot_consistent infos" and "i \<in> set infos"
  shows "position (restore_scene infos sc (obj i)) = pos i
       \<and> up (restore_scene infos sc (obj i)) = info_up i"
  using assms
proof (induction infos arbitrary: sc i)
  case Nil
  then show ?case by simp
next
  case (Cons a infos)
  let ?sc = "sc(obj a := (sc (obj a))\<lparr>position := pos a, up := info_up a\<rparr>)"
  show ?case
  proof (cases "obj i \<in> obj ` set infos")
    case True
    then obtain j where j: "j \<in> set infos" "obj j = obj i"
      by auto
    have c: "snapshot_consistent infos"
      using Cons.prems(1) by (rule snapshot_consistent_Cons)
    have jin: "j \<in> set (a # infos)"
      using j(1) by simp
    have ji: "pos j = pos i \<and> info_up j = info_up i"
      using Cons.prems(1) jin Cons.prems(2) j(2) by (rule snapshot_consistentD)
    have "position (restore_scene infos ?sc (obj j)) = pos j
        \<and> up (restore_scene infos ?sc (obj j)) = info_up j"
      using c j(1) by (rule Cons.IH)
    then have "position (restore_scene infos ?sc (obj i)) = pos i
        \<and> up (restore_scene infos ?sc (obj i)) = info_up i"
      using j(2) ji by metis
    then show ?thesis
      unfolding restore_scene.simps .
  next
    case False
    then have "i \<notin> set infos"
      by auto
    with Cons.prems(2) have ia: "i = a"
      by simp
    have "restore_scene (a # infos) sc (obj i) = ?sc (obj i)"
      unfolding restore_scene.simps using False by (rule restore_scene_other)
    then show ?thesis
      by (simp add: ia)
  qed
qed

lemma reset_events_for:
  "(changes_of ob (map (reset_event s) (filter reset_moved infos)) \<noteq> [])
     = (\<exists>i\<in>set infos. obj i = ob \<and> EPS < distanceToSquared (last_pos i) (pos i))"
  by (induction infos) (simp_all add: changes_of_def reset_event_def reset_moved_def)

text \<open>
  The drags of the examples, one step at a time: a horizontal pan of a control over
  one object with eye (0, 0, 5), up-vector (0, 1, 0) and speed 1.
\<close>

lemma pan_all_one:
  assumes i: "objInfo s = [i]" and o: "obj i = 0" and tg: "target i = 0" and c: "py c = 0"
    and sp: "speed s = 1"
    and u: "up (scene s 0) = \<lparr>vx = 0, vy = 1, vz = 0\<rparr>"
    and p: "position (scene s 0) = add3 (vectors s 0) \<lparr>vx = 0, vy = 0, vz = 5\<rparr>"
    and t: "t = add3 (vectors s 0) \<lparr>vx = - (5 * px c), vy = 0, vz = 0\<rparr>"
    and q: "q = add3 t \<lparr>vx = 0, vy = 0, vz = 5\<rparr>"
  shows "objInfo (pan_all c s)
           = [if EPS < distanceToSquared (last_pos i) q then i\<lparr>last_pos := q\<rparr> else i]"
    and "vectors (pan_all c s) 0 = t"
    and "position (scene (pan_all c s) 0) = q"
    and "up (scene (pan_all c s) 0) = \<lparr>vx = 0, vy = 1, vz = 0\<rparr>"
    and "speed (pan_all c s) = 1"
    and "dispatched (pan_all c s)
           = dispatched s @ (if EPS < distanceToSquared (last_pos i) q
                             then [ChangeEvent t 0 (last_pos i)] else [])"
proof -
  have e: "getEye i s = \<lparr>vx = 0, vy = 0, vz = 5\<rparr>"
    by (simp add: getEye_def o tg p sub3_add3)
  have u': "up (scene s (obj i)) = \<lparr>vx = 0, vy = 1, vz = 0\<rparr>"
    by (simp add: o u)
  define s1 where "s1 = s\<lparr>vectors := (vectors s)(0 := t)\<rparr>"
  have st: "pan c i s = setEye i \<lparr>vx = 0, vy = 0, vz = 5\<rparr> s1"
    using pan_horizontal_step [OF c u' e] by (simp add: tg sp t s1_def)
  define s2 where "s2 = s1\<lparr>scene := (scene s1)(0 := lookAt ((scene s1 0)\<lparr>position := q\<rparr>) t)\<rparr>"
  have se: "setEye i \<lparr>vx = 0, vy = 0, vz = 5\<rparr> s1 = checkChange i s2"
    by (simp add: setEye_def Let_def o tg q s2_def s1_def)
  have s2: "position (scene s2 0) = q" "vectors s2 0 = t" "dispatched s2 = dispatched s"
    "up (scene s2 0) = \<lparr>vx = 0, vy = 1, vz = 0\<rparr>" "speed s2 = 1"
    by (simp_all add: s2_def s1_def lookAt_def u sp)
  have cc: "checkChange i s2
      = (if EPS < distanceToSquared (last_pos i) q
         then (i\<lparr>last_pos := q\<rparr>, s2\<lparr>dispatched := dispatched s @ [ChangeEvent t 0 (last_pos i)]\<rparr>)
         else (i, s2))"
    by (simp add: checkChange_def o tg s2 dispatchEvent_def not_le)
  have pa: "pan_all c s
      = (if EPS < distanceToSquared (last_pos i) q
         then s2\<lparr>dispatched := dispatched s @ [ChangeEvent t 0 (last_pos i)], objInfo := [i\<lparr>last_pos := q\<rparr>]\<rparr>
         else s2\<lparr>objInfo := [i]\<rparr>)"
    by (simp add: pan_all_def i st se cc)
  show "objInfo (pan_all c s)
           = [if EPS < distanceToSquared (last_pos i) q then i\<lparr>last_pos := q\<rparr> else i]"
    and "vectors (pan_all c s) 0 = t"
    and "position (scene (pan_all c s) 0) = q"
    and "up (scene (pan_all c s) 0) = \<lparr>vx = 0, vy = 1, vz = 0\<rparr>"
    and "speed (pan_all c s) = 1"
    and "dispatched (pan_all c s)
           = dispatched s @ (if EPS < distanceToSquared (last_pos i) q
                             then [ChangeEvent t 0 (last_pos i)] else [])"
    by (simp_all add: pa s2)
qed


lemma moved_once_fields:
  "objInfo moved_once
     = [(demo_info \<lparr>vx = 0, vy = 0, vz = 5\<rparr>)\<lparr>last_pos := \<lparr>vx = 1 / 500, vy = 0, vz = 5\<rparr>\<rparr>]"
  "vectors moved_once 0 = \<lparr>vx = 1 / 500, vy = 0, vz = 0\<rparr>"
  "position (scene moved_once 0) = \<lparr>vx = 1 / 500, vy = 0, vz = 5\<rparr>"
  "up (scene moved_once 0) = \<lparr>vx = 0, vy = 1, vz = 0\<rparr>"
  "speed moved_once = 1"
  "dispatched moved_once
     = [ChangeEvent \<lparr>vx = 1 / 500, vy = 0, vz = 0\<rparr> 0 \<lparr>vx = 0, vy = 0, vz = 5\<rparr>]"
proof -
  let ?d = "demo PanControl \<lparr>vx = 0, vy = 0, vz = 5\<rparr>"
  let ?i = "demo_info \<lparr>vx = 0, vy = 0, vz = 5\<rparr>"
  let ?c = "\<lparr>px = - (4 / 10000), py = 0\<rparr>"
  let ?t = "\<lparr>vx = 1 / 500, vy = 0, vz = 0\<rparr>"
  let ?q = "\<lparr>vx = 1 / 500, vy = 0, vz = 5\<rparr>"
  have i: "objInfo ?d = [?i]" and o: "obj ?i = 0" and tg: "target ?i = 0"
    and c: "py ?c = 0" and sp: "speed ?d = 1"
    and u: "up (scene ?d 0) = \<lparr>vx = 0, vy = 1, vz = 0\<rparr>"
    and p: "position (scene ?d 0) = add3 (vectors ?d 0) \<lparr>vx = 0, vy = 0, vz = 5\<rparr>"
    and t: "?t = add3 (vectors ?d 0) \<lparr>vx = - (5 * px ?c), vy = 0, vz = 0\<rparr>"
    and q: "?q = add3 ?t \<lparr>vx = 0, vy = 0, vz = 5\<rparr>"
    by (simp_all add: demo_fields demo_info_def demo_object_def add3_def zero3_def)
  have m: "EPS < distanceToSquared (last_pos ?i) ?q"
    by (simp add: demo_info_def distanceToSquared_def lengthSq_def sub3_def EPS_def)
  have d: "dispatched ?d = []"
    by (simp add: demo_fields)
  have l: "last_pos ?i = \<lparr>vx = 0, vy = 0, vz = 5\<rparr>"
    by (simp add: demo_info_def)
  note r = pan_all_one [OF i o tg c sp u p t q]
  show "objInfo moved_once = [?i\<lparr>last_pos := ?q\<rparr>]"
    unfolding moved_once_def r(1) using m by simp
  show "vectors moved_once 0 = ?t"
    unfolding moved_once_def by (rule r(2))
  show "position (scene moved_once 0) = ?q"
    unfolding moved_once_def by (rule r(3))
  show "up (scene moved_once 0) = \<lparr>vx = 0, vy = 1, vz = 0\<rparr>"
    unfolding moved_once_def by (rule r(4))
  show "speed moved_once = 1"
    unfolding moved_once_def by (rule r(5))
  show "dispatched moved_once = [ChangeEvent ?t 0 \<lparr>vx = 0, vy = 0, vz = 5\<rparr>]"
    unfolding moved_once_def r(6) using m d l by simp
qed

lemma drifted_fields:
  "objInfo drifted
     = [(demo_info \<lparr>vx = 0, vy = 0, vz = 5\<rparr>)\<lparr>last_pos := \<lparr>vx = 3 / 5000, vy = 0, vz = 5\<rparr>\<rparr>]"
  "position (scene drifted 0) = \<lparr>vx = 3 / 2500, vy = 0, vz = 5\<rparr>"
  "length (dispatched drifted) = 2"
proof -
  let ?i1 = "(demo_info \<lparr>vx = 0, vy = 0, vz = 5\<rparr>)\<lparr>last_pos := \<lparr>vx = 1 / 500, vy = 0, vz = 5\<rparr>\<rparr>"
  let ?c2 = "\<lparr>px = 28 / 100000, py = 0\<rparr>"
  let ?t2 = "\<lparr>vx = 3 / 5000, vy = 0, vz = 0\<rparr>"
  let ?q2 = "\<lparr>vx = 3 / 5000, vy = 0, vz = 5\<rparr>"
  let ?s2 = "pan_all ?c2 moved_once"
  have o1: "obj ?i1 = 0" and tg1: "target ?i1 = 0" and c2: "py ?c2 = 0"
    and p1: "position (scene moved_once 0) = add3 (vectors moved_once 0) \<lparr>vx = 0, vy = 0, vz = 5\<rparr>"
    and t2: "?t2 = add3 (vectors moved_once 0) \<lparr>vx = - (5 * px ?c2), vy = 0, vz = 0\<rparr>"
    and q2: "?q2 = add3 ?t2 \<lparr>vx = 0, vy = 0, vz = 5\<rparr>"
    by (simp_all add: moved_once_fields demo_info_def add3_def)
  have m2: "EPS < distanceToSquared (last_pos ?i1) ?q2"
    by (simp add: distanceToSquared_def lengthSq_def sub3_def EPS_def)
  note r2 = pan_all_one [OF moved_once_fields(1) o1 tg1 c2 moved_once_fields(5) moved_once_fields(4) p1 t2 q2]
  let ?i2 = "?i1\<lparr>last_pos := ?q2\<rparr>"
  have f2: "objInfo ?s2 = [?i2]"
    unfolding r2(1) using m2 by simp
  have d2: "length (dispatched ?s2) = 2"
    unfolding r2(6) using m2 by (simp add: moved_once_fields)
  let ?c3 = "\<lparr>px = - (12 / 100000), py = 0\<rparr>"
  let ?t3 = "\<lparr>vx = 3 / 2500, vy = 0, vz = 0\<rparr>"
  let ?q3 = "\<lparr>vx = 3 / 2500, vy = 0, vz = 5\<rparr>"
  have o2: "obj ?i2 = 0" and tg2: "target ?i2 = 0" and c3: "py ?c3 = 0"
    by (simp_all add: demo_info_def)
  have p2: "position (scene ?s2 0) = add3 (vectors ?s2 0) \<lparr>vx = 0, vy = 0, vz = 5\<rparr>"
    unfolding r2(2) r2(3) by (simp add: add3_def)
  have t3: "?t3 = add3 (vectors ?s2 0) \<lparr>vx = - (5 * px ?c3), vy = 0, vz = 0\<rparr>"
    unfolding r2(2) by (simp add: add3_def)
  have q3: "?q3 = add3 ?t3 \<lparr>vx = 0, vy = 0, vz = 5\<rparr>"
    by (simp add: add3_def)
  have m3: "\<not> EPS < distanceToSquared (last_pos ?i2) ?q3"
    by (simp add: distanceToSquared_def lengthSq_def sub3_def EPS_def)
  note r3 = pan_all_one [OF f2 o2 tg2 c3 r2(5) r2(4) p2 t3 q3]
  show "objInfo drifted = [(demo_info \<lparr>vx = 0, vy = 0, vz = 5\<rparr>)\<lparr>last_pos := ?q2\<rparr>]"
    unfolding drifted_def r3(1) using m3 by simp
  show "position (scene drifted 0) = ?q3"
    unfolding drifted_def by (rule r3(3))
  show "length (dispatched drifted) = 2"
    unfolding drifted_def r3(6) using m3 d2 by simp
qed


text \<open>
  The snapshot is the position and up-vector at registration, and entries for the same
  object agree on it.
\<close>

lemma registerObjects_snapshot:
  "info \<in> set (fst (registerObjects obs s)) \<Longrightarrow>
   pos info = position (scene s (obj info)) \<and> info_up info = up (scene s (obj info))
   \<and> last_pos info = position (scene s (obj info))"
proof (induction obs arbitrary: s)
  case Nil
  then show ?case by simp
next
  case (Cons ob obs)
  let ?s1 = "s\<lparr>vectors := (vectors s)(fresh s := zero3), fresh := Suc (fresh s)\<rparr>"
  let ?i = "\<lparr>last_pos = position (scene s ob), last_angle = 0, last_axis = zero3,
             obj = ob, pos = position (scene s ob), info_up = up (scene s ob), target = fresh s\<rparr>"
  have f: "fst (registerObjects (ob # obs) s) = ?i # fst (registerObjects obs ?s1)"
    by (simp add: Let_def split: prod.splits)
  show ?case
  proof (cases "info = ?i")
    case True
    then show ?thesis by simp
  next
    case False
    with Cons.prems f have "info \<in> set (fst (registerObjects obs ?s1))"
      by simp
    from Cons.IH [OF this] show ?thesis
      by simp
  qed
qed

lemma registerObjects_state:
  "scene (snd (registerObjects obs s)) = scene s \<and> dispatched (snd (registerObjects obs s)) = dispatched s"
proof (induction obs arbitrary: s)
  case Nil
  show ?case by simp
next
  case (Cons ob obs)
  let ?s1 = "s\<lparr>vectors := (vectors s)(fresh s := zero3), fresh := Suc (fresh s)\<rparr>"
  have f: "snd (registerObjects (ob # obs) s) = snd (registerObjects obs ?s1)"
    by (simp add: Let_def split: prod.splits)
  show ?case
    unfolding f using Cons.IH [of ?s1] by simp
qed

lemma new_control_objInfo:
  "objInfo (new_control c obs env sc vs fr)
     = fst (registerObjects obs
         \<lparr>cls = c, speed = 1, dynamicDampingFactor = 2 / 10, objInfo = [],
          mouse = \<lparr>capture = False, curr2 = zero2, prev = zero2\<rparr>, button = ButtonLeft,
          rect = \<lparr>rleft = 0, rtop = 0, rwidth = 0, rheight = 0\<rparr>,
          minDistance = 0, maxDistance = Infinity, touchStart = 0, touchEnd = 0,
          scene = sc, vectors = vs, fresh = fr, dispatched = []\<rparr>)"
  by (simp add: new_control_def resize_def Let_def split: prod.splits)

lemma new_control_snapshot:
  assumes "info \<in> set (objInfo (new_control c obs env sc vs fr))"
  shows "pos info = position (sc (obj info)) \<and> info_up info = up (sc (obj info))
       \<and> last_pos info = position (sc (obj info))"
  using registerObjects_snapshot [OF assms [unfolded new_control_objInfo]] by simp

lemma new_control_consistent:
  "snapshot_consistent (objInfo (new_control c obs env sc vs fr))"
  unfolding snapshot_consistent_def
proof (intro ballI impI)
  fix i j
  assume i: "i \<in> set (objInfo (new_control c obs env sc vs fr))"
    and j: "j \<in> set (objInfo (new_control c obs env sc vs fr))" and e: "obj i = obj j"
  from new_control_snapshot [OF i] new_control_snapshot [OF j] e
  show "pos i = pos j \<and> info_up i = info_up j"
    by simp
qed

lemma reset_keeps_snapshot:
  "map obj (objInfo (reset s)) = map obj (objInfo s)"
  "map pos (objInfo (reset s)) = map pos (objInfo s)"
  "map info_up (objInfo (reset s)) = map info_up (objInfo s)"
  by (simp_all add: reset_eq)

text \<open>
  C1, as the code has it. After \<^verbatim>\<open>reset\<close>, the position and up-vector of every
  object the control holds are its snapshot. The events \<^verbatim>\<open>reset\<close> dispatches are
  one \<^verbatim>\<open>moveChange\<close> for each entry whose last reported position
  (\<^verbatim>\<open>info.last.pos\<close>) is farther than the epsilon from the snapshot, so
  a \<^verbatim>\<open>moveChange\<close> is dispatched for an object iff that holds for an entry of it.
\<close>

theorem reset_restores:
  assumes "snapshot_consistent (objInfo s)" and "info \<in> set (objInfo s)"
  shows "position (scene (reset s) (obj info)) = pos info
       \<and> up (scene (reset s) (obj info)) = info_up info
       \<and> dispatched (reset s)
           = dispatched s
             @ map (\<lambda>i. ChangeEvent (vectors s (target i)) (obj i) (last_pos i))
                 (filter (\<lambda>i. EPS < distanceToSquared (last_pos i) (pos i)) (objInfo s))
       \<and> ((changes_of (obj info) (drop (length (dispatched s)) (dispatched (reset s))) \<noteq> [])
            = (\<exists>i\<in>set (objInfo s). obj i = obj info
                  \<and> EPS < distanceToSquared (last_pos i) (pos i)))"
proof -
  have ev: "reset_event s = (\<lambda>i. ChangeEvent (vectors s (target i)) (obj i) (last_pos i))"
    by (simp add: reset_event_def fun_eq_iff)
  have mv: "reset_moved = (\<lambda>i. EPS < distanceToSquared (last_pos i) (pos i))"
    by (simp add: reset_moved_def fun_eq_iff)
  have d: "dispatched (reset s) = dispatched s @ map (reset_event s) (filter reset_moved (objInfo s))"
    by (simp add: reset_eq)
  have sc: "scene (reset s) = restore_scene (objInfo s) (scene s)"
    by (simp add: reset_eq)
  have p: "position (scene (reset s) (obj info)) = pos info
       \<and> up (scene (reset s) (obj info)) = info_up info"
    unfolding sc using assms by (rule restore_scene_registered)
  have c: "(changes_of (obj info) (drop (length (dispatched s)) (dispatched (reset s))) \<noteq> [])
      = (\<exists>i\<in>set (objInfo s). obj i = obj info \<and> EPS < distanceToSquared (last_pos i) (pos i))"
    by (simp add: d reset_events_for)
  have d': "dispatched (reset s)
           = dispatched s
             @ map (\<lambda>i. ChangeEvent (vectors s (target i)) (obj i) (last_pos i))
                 (filter (\<lambda>i. EPS < distanceToSquared (last_pos i) (pos i)) (objInfo s))"
    using d unfolding ev mv .
  from p d' c show ?thesis
    by blast
qed

text \<open>
  The witness: after one reported drag, \<^verbatim>\<open>reset\<close> puts the object back and
  dispatches one \<^verbatim>\<open>moveChange\<close>.
\<close>

theorem reset_restores_witness:
  "position (scene (reset moved_once) 0) = \<lparr>vx = 0, vy = 0, vz = 5\<rparr>
   \<and> up (scene (reset moved_once) 0) = \<lparr>vx = 0, vy = 1, vz = 0\<rparr>
   \<and> dispatched (reset moved_once)
       = dispatched moved_once
         @ [ChangeEvent \<lparr>vx = 1 / 500, vy = 0, vz = 0\<rparr> 0 \<lparr>vx = 1 / 500, vy = 0, vz = 5\<rparr>]"
proof -
  let ?i = "(demo_info \<lparr>vx = 0, vy = 0, vz = 5\<rparr>)\<lparr>last_pos := \<lparr>vx = 1 / 500, vy = 0, vz = 5\<rparr>\<rparr>"
  have c: "snapshot_consistent (objInfo moved_once)"
    by (simp add: snapshot_consistent_def moved_once_fields)
  have m: "?i \<in> set (objInfo moved_once)"
    by (simp add: moved_once_fields)
  have f: "obj ?i = 0" "pos ?i = \<lparr>vx = 0, vy = 0, vz = 5\<rparr>" "info_up ?i = \<lparr>vx = 0, vy = 1, vz = 0\<rparr>"
    "target ?i = 0" "last_pos ?i = \<lparr>vx = 1 / 500, vy = 0, vz = 5\<rparr>"
    by (simp_all add: demo_info_def)
  have mv: "EPS < distanceToSquared (last_pos ?i) (pos ?i)"
    by (simp add: demo_info_def distanceToSquared_def lengthSq_def sub3_def EPS_def)
  have "position (scene (reset moved_once) (obj ?i)) = pos ?i
      \<and> up (scene (reset moved_once) (obj ?i)) = info_up ?i
      \<and> dispatched (reset moved_once)
          = dispatched moved_once
            @ map (\<lambda>i. ChangeEvent (vectors moved_once (target i)) (obj i) (last_pos i))
                (filter (\<lambda>i. EPS < distanceToSquared (last_pos i) (pos i)) (objInfo moved_once))"
    using reset_restores [OF c m] by blast
  then show ?thesis
    unfolding moved_once_fields(1) using mv by (simp add: f moved_once_fields(2))
qed

text \<open>
  The claim as stated fails after the three drags: the object is at x = 0.0012,
  farther than the epsilon from its snapshot, but the last reported position,
  x = 0.0006, is not, so \<^verbatim>\<open>reset\<close> puts the object back and dispatches nothing.
\<close>

theorem reset_drifted_counterexample:
  "EPS < distanceToSquared (position (scene drifted 0)) (pos (hd (objInfo drifted)))
   \<and> obj (hd (objInfo drifted)) = 0
   \<and> position (scene (reset drifted) 0) = pos (hd (objInfo drifted))
   \<and> dispatched (reset drifted) = dispatched drifted"
proof -
  let ?i = "(demo_info \<lparr>vx = 0, vy = 0, vz = 5\<rparr>)\<lparr>last_pos := \<lparr>vx = 3 / 5000, vy = 0, vz = 5\<rparr>\<rparr>"
  have a: "EPS < distanceToSquared (position (scene drifted 0)) (pos (hd (objInfo drifted)))"
    by (simp add: drifted_fields demo_info_def distanceToSquared_def lengthSq_def sub3_def EPS_def)
  have b: "obj (hd (objInfo drifted)) = 0"
    by (simp add: drifted_fields demo_info_def)
  have n: "\<not> reset_moved ?i"
    by (simp add: reset_moved_def demo_info_def distanceToSquared_def lengthSq_def sub3_def EPS_def)
  have d: "dispatched (reset drifted) = dispatched drifted"
    by (simp add: reset_eq drifted_fields(1) n)
  have p: "position (scene (reset drifted) 0) = pos (hd (objInfo drifted))"
    by (simp add: reset_eq drifted_fields(1) demo_info_def)
  from a b p d show ?thesis
    by blast
qed

end
